theory Spec2Isabelle
  imports Complex_Main "HOL-Library.Multiset" "HOL-Library.List_Lexorder"
    "HOL-Library.Char_ord" "HOL-Library.Log_Nat"
begin

section \<open>Time: the JavaScript Date, in milliseconds\<close>

text \<open>
  A time value is the number of milliseconds since the epoch, UTC, as in a JavaScript
  \<^verbatim>\<open>Date\<close>. The device's local time is UTC plus a fixed offset \<open>tz\<close> (milliseconds);
  daylight-saving changes are not modelled. The names follow ECMAScript's abstract
  operations.
\<close>

type_synonym millis = int

definition msPerDay :: int where
  "msPerDay = 86400000"

definition LocalTime :: "int \<Rightarrow> millis \<Rightarrow> int" where
  "LocalTime tz t = t + tz"

definition UTC :: "int \<Rightarrow> int \<Rightarrow> millis" where
  "UTC tz t = t - tz"

definition Day :: "int \<Rightarrow> int" where
  "Day t = t div msPerDay"

definition TimeWithinDay :: "int \<Rightarrow> int" where
  "TimeWithinDay t = t mod msPerDay"

definition MakeTime :: "int \<Rightarrow> int \<Rightarrow> int \<Rightarrow> int \<Rightarrow> int" where
  "MakeTime h m s ms = h * 3600000 + m * 60000 + s * 1000 + ms"

definition MakeDate :: "int \<Rightarrow> int \<Rightarrow> int" where
  "MakeDate day time = day * msPerDay + time"

text \<open>
  The proleptic Gregorian calendar: the civil date (year, month 0..11, day of month) of a
  day number, by 400-, 100-, 4- and 1-year cycles counted from 1 March of year 0, and
  back.
\<close>

definition civil_from_days :: "int \<Rightarrow> int \<times> int \<times> int" where
  "civil_from_days d =
    (let z = d + 719468;
         era = z div 146097;
         doe = z mod 146097;
         c = min 3 (doe div 36524);
         dc = doe - c * 36524;
         q = dc div 1461;
         dq = dc mod 1461;
         a = min 3 (dq div 365);
         doy = dq - a * 365;
         y = era * 400 + c * 100 + q * 4 + a;
         mp = (5 * doy + 2) div 153;
         dt = doy - (153 * mp + 2) div 5 + 1;
         m = (if mp < 10 then mp + 2 else mp - 10)
     in (if m \<le> 1 then y + 1 else y, m, dt))"

definition MakeDay :: "int \<Rightarrow> int \<Rightarrow> int \<Rightarrow> int" where
  "MakeDay year month dt =
    (let ym = year + month div 12;
         mn = month mod 12;
         y = (if mn \<le> 1 then ym - 1 else ym);
         mp = (if mn \<le> 1 then mn + 10 else mn - 2);
         era = y div 400;
         yoe = y mod 400;
         doy = (153 * mp + 2) div 5;
         doe = yoe * 365 + yoe div 4 - yoe div 100 + doy
     in era * 146097 + doe - 719468 + dt - 1)"

definition YearFromTime :: "int \<Rightarrow> int" where
  "YearFromTime t = fst (civil_from_days (Day t))"

definition MonthFromTime :: "int \<Rightarrow> int" where
  "MonthFromTime t = fst (snd (civil_from_days (Day t)))"

definition DateFromTime :: "int \<Rightarrow> int" where
  "DateFromTime t = snd (snd (civil_from_days (Day t)))"

definition HourFromTime :: "int \<Rightarrow> int" where
  "HourFromTime t = TimeWithinDay t div 3600000"

definition MinFromTime :: "int \<Rightarrow> int" where
  "MinFromTime t = (TimeWithinDay t div 60000) mod 60"

definition SecFromTime :: "int \<Rightarrow> int" where
  "SecFromTime t = (TimeWithinDay t div 1000) mod 60"

text \<open>The local getters of a Date.\<close>

definition getFullYear :: "int \<Rightarrow> millis \<Rightarrow> int" where
  "getFullYear tz t = YearFromTime (LocalTime tz t)"

definition getMonth :: "int \<Rightarrow> millis \<Rightarrow> int" where
  "getMonth tz t = MonthFromTime (LocalTime tz t)"

definition getDate :: "int \<Rightarrow> millis \<Rightarrow> int" where
  "getDate tz t = DateFromTime (LocalTime tz t)"

text \<open>
  \<^verbatim>\<open>new Date(year, month, date, hours, minutes, seconds)\<close>: local fields, milliseconds 0;
  a year from 0 to 99 means 1900 + year.
\<close>

definition newDate :: "int \<Rightarrow> int \<Rightarrow> int \<Rightarrow> int \<Rightarrow> int \<Rightarrow> int \<Rightarrow> int \<Rightarrow> millis" where
  "newDate tz year month dt h m s =
    (let yr = (if 0 \<le> year \<and> year \<le> 99 then 1900 + year else year)
     in UTC tz (MakeDate (MakeDay yr month dt) (MakeTime h m s 0)))"

text \<open>\<^verbatim>\<open>date.setHours(h, m, s, ms)\<close>: the same local day, the given time of day.\<close>

definition setHours :: "int \<Rightarrow> millis \<Rightarrow> int \<Rightarrow> int \<Rightarrow> int \<Rightarrow> int \<Rightarrow> millis" where
  "setHours tz t h m s ms = UTC tz (MakeDate (Day (LocalTime tz t)) (MakeTime h m s ms))"

section \<open>The documents\<close>

datatype turno = Manha | Tarde | Noite

record Sector =
  sector_doc_id :: string
  name :: string
  temp_min :: real
  temp_max :: real
  humidity_min :: real
  humidity_max :: real
  sector_admin_uid :: string

text \<open>A document of the \<^verbatim>\<open>records\<close> collection, as \<^verbatim>\<open>onSubmit\<close> writes it.\<close>

record reading =
  record_doc_id :: string
  temperature :: real
  humidity :: real
  turno :: turno
  observation :: string
  sector_id :: string
  timestamp :: millis
  is_temp_ok :: bool
  is_humidity_ok :: bool
  admin_uid :: string

section \<open>The reading form and its submission\<close>

text \<open>
  The value a form field holds: \<^verbatim>\<open>undefined\<close>, the empty string, or the text of a number
  (a number input gives no other text), here with the number it denotes.
\<close>

datatype input_value = Undefined | Empty | Numeric real

record form_state =
  temperature_f :: input_value
  humidity_f :: input_value
  turno_f :: "turno option"
  observation_f :: "string option"

text \<open>What the schema hands to \<^verbatim>\<open>onSubmit\<close>.\<close>

record form_values =
  temperature_v :: real
  humidity_v :: real
  turno_v :: turno
  observation_v :: "string option"

text \<open>
  \<^verbatim>\<open>z.coerce.number()\<close> applies \<^verbatim>\<open>Number\<close> to its input and refuses NaN:
  \<^verbatim>\<open>Number(undefined)\<close> is NaN, \<^verbatim>\<open>Number('')\<close> is 0.
\<close>

fun coerce_number :: "input_value \<Rightarrow> real option" where
  "coerce_number Undefined = None"
| "coerce_number Empty = Some 0"
| "coerce_number (Numeric x) = Some x"

definition formSchema :: "form_state \<Rightarrow> form_values option" where
  "formSchema f =
    (case coerce_number (temperature_f f) of
       None \<Rightarrow> None
     | Some t \<Rightarrow>
        (case coerce_number (humidity_f f) of
           None \<Rightarrow> None
         | Some h \<Rightarrow>
            if h < 0 \<or> 100 < h then None
            else (case turno_f f of
                    None \<Rightarrow> None
                  | Some sh \<Rightarrow>
                     (case observation_f f of
                        None \<Rightarrow>
                          Some \<lparr>temperature_v = t, humidity_v = h, turno_v = sh,
                                observation_v = None\<rparr>
                      | Some obs \<Rightarrow>
                          if 500 < length obs then None
                          else Some \<lparr>temperature_v = t, humidity_v = h, turno_v = sh,
                                     observation_v = Some obs\<rparr>))))"

text \<open>
  The two warnings of the form, computed at every render from the watched field and the
  sector the page holds (\<open>None\<close> while it has none).
\<close>

definition isTempOutOfRange :: "Sector option \<Rightarrow> input_value \<Rightarrow> bool" where
  "isTempOutOfRange sector tempValue =
    (case sector of
       None \<Rightarrow> False
     | Some s \<Rightarrow>
        (case tempValue of
           Undefined \<Rightarrow> False
         | Empty \<Rightarrow> False
         | Numeric x \<Rightarrow> x < temp_min s \<or> x > temp_max s))"

definition isHumidityOutOfRange :: "Sector option \<Rightarrow> input_value \<Rightarrow> bool" where
  "isHumidityOutOfRange sector humidityValue =
    (case sector of
       None \<Rightarrow> False
     | Some s \<Rightarrow>
        (case humidityValue of
           Undefined \<Rightarrow> False
         | Empty \<Rightarrow> False
         | Numeric x \<Rightarrow> x < humidity_min s \<or> x > humidity_max s))"

text \<open>
  What the submission takes from outside: the device clock, whether the read and the write
  reach the store, and the time and the document id the store assigns to the write.
\<close>

record submit_env =
  clock :: millis
  getDocs_fails :: bool
  addDoc_fails :: bool
  serverTimestamp :: millis
  new_doc_id :: string

datatype toast = Registro_Duplicado | Sucesso | Falha_no_Envio

definition startOfDay_submit :: "int \<Rightarrow> millis \<Rightarrow> millis" where
  "startOfDay_submit tz now =
     newDate tz (getFullYear tz now) (getMonth tz now) (getDate tz now) 0 0 0"

definition endOfDay_submit :: "int \<Rightarrow> millis \<Rightarrow> millis" where
  "endOfDay_submit tz now =
     newDate tz (getFullYear tz now) (getMonth tz now) (getDate tz now) 23 59 59"

text \<open>The query of the existence check, over the documents of the collection.\<close>

definition duplicateQuery ::
  "int \<Rightarrow> millis \<Rightarrow> Sector \<Rightarrow> form_values \<Rightarrow> reading list \<Rightarrow> reading list" where
  "duplicateQuery tz now s vals records =
     filter (\<lambda>r. sector_id r = sector_doc_id s \<and> turno r = turno_v vals \<and>
                 startOfDay_submit tz now \<le> timestamp r \<and>
                 timestamp r \<le> endOfDay_submit tz now) records"

definition dataToSave :: "submit_env \<Rightarrow> Sector \<Rightarrow> form_state \<Rightarrow> form_values \<Rightarrow> reading" where
  "dataToSave env s form vals =
     \<lparr>record_doc_id = new_doc_id env,
      temperature = temperature_v vals,
      humidity = humidity_v vals,
      turno = turno_v vals,
      observation = (case observation_v vals of None \<Rightarrow> [] | Some obs \<Rightarrow> obs),
      sector_id = sector_doc_id s,
      timestamp = serverTimestamp env,
      is_temp_ok = (\<not> isTempOutOfRange (Some s) (temperature_f form)),
      is_humidity_ok = (\<not> isHumidityOutOfRange (Some s) (humidity_f form)),
      admin_uid = sector_admin_uid s\<rparr>"

text \<open>
  \<^verbatim>\<open>onSubmit\<close>: the notification shown (none when the page holds no sector) and the
  collection afterwards. A failure of the store is caught and notified.
\<close>

definition onSubmit ::
  "int \<Rightarrow> submit_env \<Rightarrow> Sector option \<Rightarrow> form_state \<Rightarrow> form_values \<Rightarrow> reading list
     \<Rightarrow> toast option \<times> reading list" where
  "onSubmit tz env sector form vals records =
    (case sector of
       None \<Rightarrow> (None, records)
     | Some s \<Rightarrow>
        if getDocs_fails env then (Some Falha_no_Envio, records)
        else if duplicateQuery tz (clock env) s vals records \<noteq> []
        then (Some Registro_Duplicado, records)
        else if addDoc_fails env then (Some Falha_no_Envio, records)
        else (Some Sucesso, records @ [dataToSave env s form vals]))"

text \<open>\<^verbatim>\<open>form.handleSubmit(onSubmit)\<close>: the schema first; a refused form calls nothing.\<close>

definition handleSubmit ::
  "int \<Rightarrow> submit_env \<Rightarrow> Sector option \<Rightarrow> form_state \<Rightarrow> reading list
     \<Rightarrow> toast option \<times> reading list" where
  "handleSubmit tz env sector form records =
    (case formSchema form of
       None \<Rightarrow> (None, records)
     | Some vals \<Rightarrow> onSubmit tz env sector form vals records)"

section \<open>The dashboard: which shifts are done today\<close>

record status_entry =
  entry_name :: string
  shifts :: "turno \<Rightarrow> bool"

type_synonym SectorStatus = "string \<rightharpoonup> status_entry"

text \<open>The sectors snapshot: every sector of the administrator, all three shifts false.\<close>

definition set_initial :: "Sector \<Rightarrow> SectorStatus \<Rightarrow> SectorStatus" where
  "set_initial sector st =
     st(sector_doc_id sector \<mapsto> \<lparr>entry_name = name sector, shifts = (\<lambda>_. False)\<rparr>)"

definition initialStatus :: "Sector list \<Rightarrow> SectorStatus" where
  "initialStatus sectorsData = fold set_initial sectorsData Map.empty"

text \<open>
  Today's window, from one mutated Date: \<^verbatim>\<open>setHours(0, 0, 0, 0)\<close>, then
  \<^verbatim>\<open>setHours(23, 59, 59, 999)\<close> on the result.
\<close>

definition startOfDay_today :: "int \<Rightarrow> millis \<Rightarrow> millis" where
  "startOfDay_today tz today = setHours tz today 0 0 0 0"

definition endOfDay_today :: "int \<Rightarrow> millis \<Rightarrow> millis" where
  "endOfDay_today tz today = setHours tz (setHours tz today 0 0 0 0) 23 59 59 999"

definition qRecords :: "int \<Rightarrow> millis \<Rightarrow> Sector \<Rightarrow> reading list \<Rightarrow> reading list" where
  "qRecords tz today sector records =
     filter (\<lambda>r. sector_id r = sector_doc_id sector \<and>
                 startOfDay_today tz today \<le> timestamp r \<and>
                 timestamp r \<le> endOfDay_today tz today) records"

text \<open>
  The update a records snapshot of one sector applies to the status: that sector's shifts
  are reset, then every document of the snapshot marks its shift.
\<close>

definition mark_shift :: "reading \<Rightarrow> SectorStatus \<Rightarrow> SectorStatus" where
  "mark_shift record st =
     (case st (sector_id record) of
        None \<Rightarrow> st
      | Some e \<Rightarrow> st(sector_id record \<mapsto> e\<lparr>shifts := (shifts e)(turno record := True)\<rparr>))"

definition recordsSnapshot :: "Sector \<Rightarrow> reading list \<Rightarrow> SectorStatus \<Rightarrow> SectorStatus" where
  "recordsSnapshot sector docs prevStatus =
     (let newStatus =
        (case prevStatus (sector_doc_id sector) of
           None \<Rightarrow> prevStatus
         | Some e \<Rightarrow> prevStatus(sector_doc_id sector \<mapsto> e\<lparr>shifts := (\<lambda>_. False)\<rparr>))
      in fold mark_shift docs newStatus)"

text \<open>
  The status after the sectors snapshot and the records snapshots of the sectors in
  \<open>deliveries\<close>, in the order they arrive (a sector may deliver more than once, or not
  yet).
\<close>

definition sectorsStatus ::
  "int \<Rightarrow> millis \<Rightarrow> Sector list \<Rightarrow> reading list \<Rightarrow> Sector list \<Rightarrow> SectorStatus" where
  "sectorsStatus tz today sectorsData records deliveries =
     fold (\<lambda>sector st. recordsSnapshot sector (qRecords tz today sector records) st)
       deliveries (initialStatus sectorsData)"

section \<open>Deleting a sector\<close>

record store =
  sectors_c :: "Sector list"
  records_c :: "reading list"

text \<open>Which calls to the store fail: the query, each delete of a reading, the delete of the sector.\<close>

record delete_env =
  query_fails :: bool
  deleteDoc_fails :: "string \<Rightarrow> bool"
  deleteSectorDoc_fails :: bool

datatype delete_toast = Sucesso_deletado | Erro_ao_deletar_setor

text \<open>
  \<^verbatim>\<open>deleteSector\<close>: every delete of a reading is started before any is awaited, so the
  ones that succeed take effect even when another fails; the sector is deleted only after
  all of them succeeded.
\<close>

definition deleteSector :: "delete_env \<Rightarrow> string \<Rightarrow> store \<Rightarrow> delete_toast \<times> store" where
  "deleteSector env sectorId st =
    (if query_fails env then (Erro_ao_deletar_setor, st)
     else
       let recordsSnapshot_ids =
             map record_doc_id (filter (\<lambda>r. sector_id r = sectorId) (records_c st));
           deleted = filter (\<lambda>i. \<not> deleteDoc_fails env i) recordsSnapshot_ids;
           st1 = st\<lparr>records_c := filter (\<lambda>r. record_doc_id r \<notin> set deleted) (records_c st)\<rparr>
       in if list_ex (deleteDoc_fails env) recordsSnapshot_ids then (Erro_ao_deletar_setor, st1)
          else if deleteSectorDoc_fails env then (Erro_ao_deletar_setor, st1)
          else (Sucesso_deletado,
                st1\<lparr>sectors_c := filter (\<lambda>s. sector_doc_id s \<noteq> sectorId) (sectors_c st1)\<rparr>))"

section \<open>Formatting and parsing dates\<close>

text \<open>
  A JavaScript string is modelled as a list of characters, one for each code unit below
  256; the accented letters of the source's literals are written by their codes.
\<close>

definition digit_char :: "nat \<Rightarrow> char" where
  "digit_char n = ''0123456789'' ! (n mod 10)"

fun string_of_nat :: "nat \<Rightarrow> string" where
  "string_of_nat n =
     (if n < 10 then [digit_char n] else string_of_nat (n div 10) @ [digit_char (n mod 10)])"

declare string_of_nat.simps [simp del]

text \<open>The helper of date-fns that pads a number with zeros, the sign in front.\<close>

definition addLeadingZeros :: "int \<Rightarrow> nat \<Rightarrow> string" where
  "addLeadingZeros number targetLength =
     (let output = string_of_nat (nat \<bar>number\<bar>)
      in (if number < 0 then ''-'' else []) @
         replicate (targetLength - length output) (CHR ''0'') @ output)"

definition getHours :: "int \<Rightarrow> millis \<Rightarrow> int" where
  "getHours tz t = HourFromTime (LocalTime tz t)"

definition getMinutes :: "int \<Rightarrow> millis \<Rightarrow> int" where
  "getMinutes tz t = MinFromTime (LocalTime tz t)"

definition getSeconds :: "int \<Rightarrow> millis \<Rightarrow> int" where
  "getSeconds tz t = SecFromTime (LocalTime tz t)"

text \<open>The tokens of \<^verbatim>\<open>format\<close>: a year of the era (1 - year for a year not above 0).\<close>

definition token_yyyy :: "int \<Rightarrow> millis \<Rightarrow> string" where
  "token_yyyy tz t =
     (let signedYear = getFullYear tz t;
          year = (if 0 < signedYear then signedYear else 1 - signedYear)
      in addLeadingZeros year 4)"

definition token_MM :: "int \<Rightarrow> millis \<Rightarrow> string" where
  "token_MM tz t = addLeadingZeros (getMonth tz t + 1) 2"

definition token_dd :: "int \<Rightarrow> millis \<Rightarrow> string" where
  "token_dd tz t = addLeadingZeros (getDate tz t) 2"

definition token_HH :: "int \<Rightarrow> millis \<Rightarrow> string" where
  "token_HH tz t = addLeadingZeros (getHours tz t) 2"

definition token_mm :: "int \<Rightarrow> millis \<Rightarrow> string" where
  "token_mm tz t = addLeadingZeros (getMinutes tz t) 2"

definition token_ss :: "int \<Rightarrow> millis \<Rightarrow> string" where
  "token_ss tz t = addLeadingZeros (getSeconds tz t) 2"

text \<open>\<^verbatim>\<open>format(d, 'yyyy-MM-dd')\<close>, \<^verbatim>\<open>format(d, 'dd/MM')\<close> and \<^verbatim>\<open>format(d, 'yyyy-MM-dd HH:mm:ss')\<close>.\<close>

definition format_yyyy_MM_dd :: "int \<Rightarrow> millis \<Rightarrow> string" where
  "format_yyyy_MM_dd tz t = token_yyyy tz t @ ''-'' @ token_MM tz t @ ''-'' @ token_dd tz t"

definition format_dd_MM :: "int \<Rightarrow> millis \<Rightarrow> string" where
  "format_dd_MM tz t = token_dd tz t @ ''/'' @ token_MM tz t"

definition format_yyyy_MM_dd_HH_mm_ss :: "int \<Rightarrow> millis \<Rightarrow> string" where
  "format_yyyy_MM_dd_HH_mm_ss tz t =
     format_yyyy_MM_dd tz t @ '' '' @ token_HH tz t @ '':'' @ token_mm tz t @ '':'' @ token_ss tz t"

text \<open>
  \<^verbatim>\<open>new Date(s)\<close> for a date-only ISO string: four digits, two digits, two digits, a
  month from 1 to 12 and a day from 1 to 31 give midnight UTC of that date. What the
  runtime's other parsers make of any other string (a key with a five-digit year, from the
  year 10000 on) is not modelled: \<open>None\<close>.
\<close>

definition digit_value :: "char \<Rightarrow> nat option" where
  "digit_value c = (if c \<in> set ''0123456789'' then Some (of_char c - 48) else None)"

definition digits_value :: "string \<Rightarrow> nat option" where
  "digits_value cs =
     fold (\<lambda>c acc. case acc of
                      None \<Rightarrow> None
                    | Some a \<Rightarrow> (case digit_value c of None \<Rightarrow> None | Some d \<Rightarrow> Some (10 * a + d)))
       cs (Some 0)"

definition parseISODate :: "string \<Rightarrow> millis option" where
  "parseISODate s =
     (if length s = 10 \<and> s ! 4 = CHR ''-'' \<and> s ! 7 = CHR ''-''
      then (case digits_value (take 4 s) of
              None \<Rightarrow> None
            | Some y \<Rightarrow>
               (case digits_value (take 2 (drop 5 s)) of
                  None \<Rightarrow> None
                | Some m \<Rightarrow>
                   (case digits_value (drop 8 s) of
                      None \<Rightarrow> None
                    | Some d \<Rightarrow>
                       if 1 \<le> m \<and> m \<le> 12 \<and> 1 \<le> d \<and> d \<le> 31
                       then Some (MakeDate (MakeDay (int y) (int m - 1) (int d)) 0)
                       else None)))
      else None)"

section \<open>Numbers: IEEE doubles\<close>

text \<open>
  A number of the program is a double, modelled by the real it denotes; comparing two of
  them is exact. Where the program adds, divides or parses, the result is the double
  nearest to the exact result, a tie going to the even significand: \<open>nearest_double\<close>, with
  53 significant bits and the exponent bounded below as for subnormal numbers. NaN and the
  infinities (an overflow) are outside the model.
\<close>

definition binary_exponent :: "real \<Rightarrow> int" where
  "binary_exponent x =
     (if 1 \<le> \<bar>x\<bar> then bitlen \<lfloor>\<bar>x\<bar>\<rfloor> - 1 else - bitlen (\<lceil>1 / \<bar>x\<bar>\<rceil> - 1))"

definition pow2 :: "int \<Rightarrow> real" where
  "pow2 k = (if 0 \<le> k then 2 ^ nat k else 1 / 2 ^ nat (- k))"

definition nearest_double :: "real \<Rightarrow> real" where
  "nearest_double x =
     (if x = 0 then 0
      else let ulp = pow2 (max (binary_exponent x) (- 1022) - 52);
               y = x / ulp;
               n = \<lfloor>y\<rfloor>;
               m = (if y - of_int n < 1 / 2 then n
                    else if 1 / 2 < y - of_int n then n + 1
                    else if even n then n else n + 1)
           in of_int m * ulp)"

section \<open>The history chart\<close>

text \<open>
  \<^verbatim>\<open>parseFloat(x.toFixed(1))\<close>. \<^verbatim>\<open>toFixed(1)\<close> writes the tenth nearest to the exact value
  of \<open>x\<close>, the larger one of two equally near, the sign apart, and writes \<open>x\<close> itself from
  \<open>10\<^sup>2\<^sup>1\<close> on; \<^verbatim>\<open>parseFloat\<close> reads the text back as the nearest double.
\<close>

definition toFixed1 :: "real \<Rightarrow> real" where
  "toFixed1 x =
     (if 10 ^ 21 \<le> \<bar>x\<bar> then x
      else if x < 0 then nearest_double (- (of_int \<lfloor>(- x) * 10 + 1 / 2\<rfloor> / 10))
      else nearest_double (of_int \<lfloor>x * 10 + 1 / 2\<rfloor> / 10))"

record data_point =
  date :: string
  Temperatura :: real
  Umidade :: real

text \<open>The one way the model of the chart gives no points: a key it does not parse.\<close>

datatype not_modelled = Key_not_ISO

text \<open>
  \<^verbatim>\<open>groupedByDay\<close>: the object's entries in the order the keys were first written, each
  with the temperatures and humidities pushed so far.
\<close>

fun push_day :: "string \<Rightarrow> real \<Rightarrow> real \<Rightarrow> (string \<times> real list \<times> real list) list
    \<Rightarrow> (string \<times> real list \<times> real list) list" where
  "push_day day t h [] = [(day, [t], [h])]"
| "push_day day t h ((k, temps, humids) # rest) =
     (if k = day then (k, temps @ [t], humids @ [h]) # rest
      else (k, temps, humids) # push_day day t h rest)"

definition groupedByDay :: "int \<Rightarrow> reading list \<Rightarrow> (string \<times> real list \<times> real list) list" where
  "groupedByDay tz records =
     fold (\<lambda>record g. push_day (format_yyyy_MM_dd tz (timestamp record))
                         (temperature record) (humidity record) g)
       records []"

text \<open>
  \<^verbatim>\<open>xs.reduce((a, b) => a + b, 0) / xs.length\<close>: the additions from 0, left to right, and
  the division, each rounded to a double.
\<close>

definition average :: "real list \<Rightarrow> real" where
  "average xs =
     nearest_double (foldl (\<lambda>a b. nearest_double (a + b)) 0 xs / real (length xs))"

text \<open>
  \<^verbatim>\<open>format(new Date(day), 'dd/MM')\<close>: the key is parsed as UTC and formatted in local
  time.
\<close>

definition chart_date :: "int \<Rightarrow> string \<Rightarrow> not_modelled + string" where
  "chart_date tz day =
     (case parseISODate day of None \<Rightarrow> Inl Key_not_ISO | Some d \<Rightarrow> Inr (format_dd_MM tz d))"

definition chart_point :: "int \<Rightarrow> string \<times> real list \<times> real list \<Rightarrow> not_modelled + data_point" where
  "chart_point tz entry =
     (case entry of (day, temps, humids) \<Rightarrow>
        (case chart_date tz day of
           Inl e \<Rightarrow> Inl e
         | Inr label \<Rightarrow>
            Inr \<lparr>date = label,
                 Temperatura = toFixed1 (average temps),
                 Umidade = toFixed1 (average humids)\<rparr>))"

fun chart_points :: "int \<Rightarrow> (string \<times> real list \<times> real list) list \<Rightarrow> not_modelled + data_point list" where
  "chart_points tz [] = Inr []"
| "chart_points tz (entry # entries) =
     (case chart_point tz entry of
        Inl e \<Rightarrow> Inl e
      | Inr p \<Rightarrow> (case chart_points tz entries of Inl e \<Rightarrow> Inl e | Inr ps \<Rightarrow> Inr (p # ps)))"

text \<open>
  \<^verbatim>\<open>chartData\<close>: the points, sorted by \<^verbatim>\<open>localeCompare\<close> on their labels (a stable sort;
  on labels of the one shape dd/MM the comparison is the lexicographic one).
\<close>

definition chartData :: "int \<Rightarrow> reading list \<Rightarrow> not_modelled + data_point list" where
  "chartData tz records =
     (if records = [] then Inr []
      else (case chart_points tz (groupedByDay tz records) of
              Inl e \<Rightarrow> Inl e
            | Inr points \<Rightarrow> Inr (sort_key date points)))"

text \<open>
  For the statement of the grouping: the readings of a list that fall on the local calendar
  day written \<open>day\<close> (as yyyy-MM-dd).
\<close>

definition readings_of_day :: "int \<Rightarrow> reading list \<Rightarrow> string \<Rightarrow> reading list" where
  "readings_of_day tz records day =
     filter (\<lambda>r. format_yyyy_MM_dd tz (timestamp r) = day) records"

section \<open>The CSV export\<close>

definition dquote :: char where
  "dquote = CHR 0x22"

definition newline :: char where
  "newline = CHR 0x0A"

text \<open>\<^verbatim>\<open>Array.prototype.join\<close> on strings.\<close>

fun join :: "string \<Rightarrow> string list \<Rightarrow> string" where
  "join sep [] = []"
| "join sep [x] = x"
| "join sep (x # y # ys) = x @ sep @ join sep (y # ys)"

definition headers :: "string list" where
  "headers =
     [''Hor'' @ [CHR 0xE1] @ ''rio'', ''Turno'', ''Temperatura ('' @ [CHR 0xB0] @ ''C)'',
      ''Temp OK'', ''Umidade (%)'', ''Umidade OK'', ''Observa'' @ [CHR 0xE7, CHR 0xF5] @ ''es'']"

text \<open>How \<^verbatim>\<open>join\<close> writes a shift and a boolean.\<close>

definition turno_text :: "turno \<Rightarrow> string" where
  "turno_text t = (case t of Manha \<Rightarrow> ''Manh'' @ [CHR 0xE3] | Tarde \<Rightarrow> ''Tarde'' | Noite \<Rightarrow> ''Noite'')"

definition boolean_text :: "bool \<Rightarrow> string" where
  "boolean_text b = (if b then ''true'' else ''false'')"

text \<open>\<^verbatim>\<open>observation.replace(/"/g, '""')\<close>.\<close>

definition replace_quotes :: "string \<Rightarrow> string" where
  "replace_quotes s = concat (map (\<lambda>c. if c = dquote then [dquote, dquote] else [c]) s)"

text \<open>
  One row. How the runtime writes a number (\<^verbatim>\<open>Number.prototype.toString\<close>) is the
  parameter \<open>number_text\<close>.
\<close>

definition csv_row :: "(real \<Rightarrow> string) \<Rightarrow> int \<Rightarrow> reading \<Rightarrow> string" where
  "csv_row number_text tz r =
     join '',''
       [format_yyyy_MM_dd_HH_mm_ss tz (timestamp r),
        turno_text (turno r),
        number_text (temperature r),
        boolean_text (is_temp_ok r),
        number_text (humidity r),
        boolean_text (is_humidity_ok r),
        [dquote] @ replace_quotes (observation r) @ [dquote]]"

text \<open>
  The rows, after the stable sort by \<^verbatim>\<open>getTime()\<close>; the lines of the file, the header
  first; and the content handed to the download link.
\<close>

definition csv_rows :: "(real \<Rightarrow> string) \<Rightarrow> int \<Rightarrow> reading list \<Rightarrow> string list" where
  "csv_rows number_text tz records = map (csv_row number_text tz) (sort_key timestamp records)"

definition csv_lines :: "(real \<Rightarrow> string) \<Rightarrow> int \<Rightarrow> reading list \<Rightarrow> string list" where
  "csv_lines number_text tz records = join '','' headers # csv_rows number_text tz records"

definition csvContent :: "(real \<Rightarrow> string) \<Rightarrow> int \<Rightarrow> reading list \<Rightarrow> string" where
  "csvContent number_text tz records =
     ''data:text/csv;charset=utf-8,'' @ join [newline] (csv_lines number_text tz records)"

text \<open>
  For the statement of the quoting: reading a quoted field back, every doubled quote
  becoming one quote again.
\<close>

fun collapse_quotes :: "string \<Rightarrow> string" where
  "collapse_quotes (c # d # cs) =
     (if c = dquote \<and> d = dquote then dquote # collapse_quotes cs
      else c # collapse_quotes (d # cs))"
| "collapse_quotes cs = cs"

section \<open>Concrete inputs\<close>

text \<open>A device three hours behind UTC; a sector with the form's default bounds.\<close>

definition tz_brt :: int where
  "tz_brt = - 10800000"

definition sector0 :: Sector where
  "sector0 =
     \<lparr>sector_doc_id = ''s1'', name = ''Estoque'', temp_min = 18, temp_max = 25,
      humidity_min = 40, humidity_max = 60, sector_admin_uid = ''admin1''\<rparr>"

text \<open>
  10 March 2024 begins, on that device, at 1710039600000. A morning reading at 09:00, and
  a submission for the same shift at 10:00.
\<close>

definition reading_0900 :: reading where
  "reading_0900 =
     \<lparr>record_doc_id = ''r1'', temperature = 22, humidity = 55, turno = Manha,
      observation = [], sector_id = ''s1'', timestamp = 1710072000000,
      is_temp_ok = True, is_humidity_ok = True, admin_uid = ''admin1''\<rparr>"

definition env_1000 :: submit_env where
  "env_1000 =
     \<lparr>clock = 1710075600000, getDocs_fails = False, addDoc_fails = False,
      serverTimestamp = 1710075600250, new_doc_id = ''r2''\<rparr>"

definition form_manha :: form_state where
  "form_manha =
     \<lparr>temperature_f = Numeric 18, humidity_f = Numeric 55, turno_f = Some Manha,
      observation_f = Some []\<rparr>"

definition vals_manha :: form_values where
  "vals_manha =
     \<lparr>temperature_v = 18, humidity_v = 55, turno_v = Manha, observation_v = Some []\<rparr>"

text \<open>A form with a temperature above the bounds and no humidity entered yet.\<close>

definition form_no_humidity :: form_state where
  "form_no_humidity =
     \<lparr>temperature_f = Numeric 30, humidity_f = Empty, turno_f = None,
      observation_f = Some []\<rparr>"

text \<open>A form submitted with the temperature left empty.\<close>

definition form_no_temperature :: form_state where
  "form_no_temperature =
     \<lparr>temperature_f = Empty, humidity_f = Numeric 50, turno_f = Some Tarde,
      observation_f = Some []\<rparr>"

text \<open>
  A night reading stored at 23:59:59.500 of 10 March 2024, and a submission for the same
  sector and shift at 23:59:59.900 of the same day.
\<close>

definition reading_235959 :: reading where
  "reading_235959 =
     \<lparr>record_doc_id = ''r3'', temperature = 21, humidity = 50, turno = Noite,
      observation = [], sector_id = ''s1'', timestamp = 1710125999500,
      is_temp_ok = True, is_humidity_ok = True, admin_uid = ''admin1''\<rparr>"

definition env_235959 :: submit_env where
  "env_235959 =
     \<lparr>clock = 1710125999900, getDocs_fails = False, addDoc_fails = False,
      serverTimestamp = 1710125999950, new_doc_id = ''r4''\<rparr>"

definition form_noite :: form_state where
  "form_noite =
     \<lparr>temperature_f = Numeric 21, humidity_f = Numeric 50, turno_f = Some Noite,
      observation_f = Some []\<rparr>"

definition vals_noite :: form_values where
  "vals_noite =
     \<lparr>temperature_v = 21, humidity_v = 50, turno_v = Noite, observation_v = Some []\<rparr>"

text \<open>Two sectors; the second has no reading on 10 March 2024.\<close>

definition sector1 :: Sector where
  "sector1 =
     \<lparr>sector_doc_id = ''s2'', name = ''Laboratorio'', temp_min = 2, temp_max = 8,
      humidity_min = 30, humidity_max = 50, sector_admin_uid = ''admin1''\<rparr>"

definition reading_0930 :: reading where
  "reading_0930 =
     \<lparr>record_doc_id = ''r5'', temperature = 23, humidity = 56, turno = Manha,
      observation = [], sector_id = ''s1'', timestamp = 1710073800000,
      is_temp_ok = True, is_humidity_ok = True, admin_uid = ''admin1''\<rparr>"

text \<open>A reading of the second sector at 22:00 of 9 March 2024.\<close>

definition reading_yesterday :: reading where
  "reading_yesterday =
     \<lparr>record_doc_id = ''r6'', temperature = 5, humidity = 45, turno = Noite,
      observation = [], sector_id = ''s2'', timestamp = 1710032400000,
      is_temp_ok = True, is_humidity_ok = True, admin_uid = ''admin1''\<rparr>"

definition store0 :: store where
  "store0 = \<lparr>sectors_c = [sector0, sector1],
             records_c = [reading_0900, reading_yesterday, reading_0930, reading_235959]\<rparr>"

definition env_delete_ok :: delete_env where
  "env_delete_ok =
     \<lparr>query_fails = False, deleteDoc_fails = (\<lambda>_. False), deleteSectorDoc_fails = False\<rparr>"

text \<open>
  Three readings on 10 March 2024 (08:00, 14:00, 22:00) with temperatures 20, 22, 24, and
  one on 11 March at 09:00 with temperature 18.
\<close>

definition mk_reading :: "string \<Rightarrow> millis \<Rightarrow> turno \<Rightarrow> real \<Rightarrow> real \<Rightarrow> reading" where
  "mk_reading i ts sh t h =
     \<lparr>record_doc_id = i, temperature = t, humidity = h, turno = sh, observation = [],
      sector_id = ''s1'', timestamp = ts, is_temp_ok = True, is_humidity_ok = True,
      admin_uid = ''admin1''\<rparr>"

definition history_two_days :: "reading list" where
  "history_two_days =
     [mk_reading ''h1'' 1710068400000 Manha 20 50,
      mk_reading ''h2'' 1710090000000 Tarde 22 52,
      mk_reading ''h3'' 1710118800000 Noite 24 57,
      mk_reading ''h4'' 1710158400000 Manha 18 61]"

text \<open>
  On a device at UTC: a reading at noon of 31 January 2024 and one at noon of
  1 February 2024, in the order the query returns them.
\<close>

definition history_month_end :: "reading list" where
  "history_month_end =
     [mk_reading ''m1'' 1706702400000 Tarde 20 50,
      mk_reading ''m2'' 1706788800000 Tarde 22 52]"

text \<open>
  The two readings of the export example, at 08:00 and 14:00 of 10 March 2024, and the
  text of the four numbers in them.
\<close>

definition csv_r1 :: reading where
  "csv_r1 =
     \<lparr>record_doc_id = ''c1'', temperature = 22, humidity = 55, turno = Manha,
      observation = ''He said '' @ [dquote] @ ''hi'' @ [dquote], sector_id = ''s1'',
      timestamp = 1710068400000, is_temp_ok = True, is_humidity_ok = True,
      admin_uid = ''admin1''\<rparr>"

definition csv_r2 :: reading where
  "csv_r2 =
     \<lparr>record_doc_id = ''c2'', temperature = 61 / 2, humidity = 40, turno = Tarde,
      observation = [], sector_id = ''s1'', timestamp = 1710090000000,
      is_temp_ok = False, is_humidity_ok = True, admin_uid = ''admin1''\<rparr>"

definition number_text_example :: "real \<Rightarrow> string" where
  "number_text_example x =
     (if x = 22 then ''22'' else if x = 55 then ''55'' else if x = 61 / 2 then ''30.5''
      else if x = 40 then ''40'' else ''?'')"

text \<open>
  The doubles written 22.1, 22.2, 55.3 and 55.4, and two readings with them at 08:00 and
  14:00 of 10 March 2024.
\<close>

definition double_22_1 :: real where
  "double_22_1 = nearest_double (221 / 10)"

definition double_22_2 :: real where
  "double_22_2 = nearest_double (222 / 10)"

definition double_55_3 :: real where
  "double_55_3 = nearest_double (553 / 10)"

definition double_55_4 :: real where
  "double_55_4 = nearest_double (554 / 10)"

definition history_tenths :: "reading list" where
  "history_tenths =
     [mk_reading ''d1'' 1710068400000 Manha double_22_1 double_55_3,
      mk_reading ''d2'' 1710090000000 Tarde double_22_2 double_55_4]"


section \<open>Evaluating the calendar\<close>

lemma day_window_1000:
  "startOfDay_submit tz_brt 1710075600000 = 1710039600000"
  "endOfDay_submit tz_brt 1710075600000 = 1710125999000"
  by code_simp+

lemma day_window_235959:
  "startOfDay_submit tz_brt 1710125999900 = 1710039600000"
  "endOfDay_submit tz_brt 1710125999900 = 1710125999000"
  by code_simp+

section \<open>The submission guard\<close>

lemma duplicateQuery_empty_iff:
  "duplicateQuery tz now s vals records = [] \<longleftrightarrow>
     \<not> (\<exists>r\<in>set records. sector_id r = sector_doc_id s \<and> turno r = turno_v vals \<and>
           startOfDay_submit tz now \<le> timestamp r \<and> timestamp r \<le> endOfDay_submit tz now)"
  by (auto simp: duplicateQuery_def filter_empty_conv)

lemma onSubmit_Sucesso:
  "onSubmit tz env sector form vals records = (Some Sucesso, records') \<Longrightarrow>
     \<exists>s. sector = Some s \<and> records' = records @ [dataToSave env s form vals]"
  by (auto simp: onSubmit_def split: option.splits if_splits)

lemma onSubmit_appends:
  "onSubmit tz env sector form vals records = (outcome, records') \<Longrightarrow>
     records' = records \<or> (\<exists>s. sector = Some s \<and> records' = records @ [dataToSave env s form vals])"
  by (auto simp: onSubmit_def split: option.splits if_splits)

lemma formSchema_numeric:
  "formSchema form = Some vals \<Longrightarrow> temperature_f form = Numeric t \<Longrightarrow>
     humidity_f form = Numeric h \<Longrightarrow> temperature_v vals = t \<and> humidity_v vals = h"
  by (auto simp: formSchema_def split: option.splits if_splits)

lemma formSchema_form_manha: "formSchema form_manha = Some vals_manha"
  by (simp add: formSchema_def form_manha_def vals_manha_def)

lemma formSchema_form_noite: "formSchema form_noite = Some vals_noite"
  by (simp add: formSchema_def form_noite_def vals_noite_def)

text \<open>
  C1. When the existence check reaches the store and finds a reading of the same sector and
  shift inside the day window of the device clock, the submission is notified as a
  duplicate and the collection is left as it was; when it finds none and the write reaches
  the store, the collection gains exactly the new document.
\<close>

theorem C1_duplicate_shift_guard:
  assumes "\<not> getDocs_fails env"
  shows "((\<exists>r\<in>set records. sector_id r = sector_doc_id s \<and> turno r = turno_v vals \<and>
             startOfDay_submit tz (clock env) \<le> timestamp r \<and>
             timestamp r \<le> endOfDay_submit tz (clock env))
          \<longrightarrow> onSubmit tz env (Some s) form vals records = (Some Registro_Duplicado, records))
       \<and> (\<not> (\<exists>r\<in>set records. sector_id r = sector_doc_id s \<and> turno r = turno_v vals \<and>
             startOfDay_submit tz (clock env) \<le> timestamp r \<and>
             timestamp r \<le> endOfDay_submit tz (clock env)) \<and> \<not> addDoc_fails env
          \<longrightarrow> onSubmit tz env (Some s) form vals records
               = (Some Sucesso, records @ [dataToSave env s form vals]))"
proof -
  let ?found = "\<exists>r\<in>set records. sector_id r = sector_doc_id s \<and> turno r = turno_v vals \<and>
             startOfDay_submit tz (clock env) \<le> timestamp r \<and>
             timestamp r \<le> endOfDay_submit tz (clock env)"
  have q: "duplicateQuery tz (clock env) s vals records = [] \<longleftrightarrow> \<not> ?found"
    by (rule duplicateQuery_empty_iff)
  show ?thesis
    using assms q by (simp add: onSubmit_def)
qed

theorem C1_duplicate_shift_guard_witness:
  "\<not> getDocs_fails env_1000 \<and> \<not> addDoc_fails env_1000
   \<and> onSubmit tz_brt env_1000 (Some sector0) form_manha vals_manha [reading_0900]
       = (Some Registro_Duplicado, [reading_0900])
   \<and> onSubmit tz_brt env_1000 (Some sector0) form_manha vals_manha []
       = (Some Sucesso, [dataToSave env_1000 sector0 form_manha vals_manha])"
proof -
  have ok: "\<not> getDocs_fails env_1000" "\<not> addDoc_fails env_1000" "clock env_1000 = 1710075600000"
    by (simp_all add: env_1000_def)
  have found: "\<exists>r\<in>set [reading_0900]. sector_id r = sector_doc_id sector0 \<and>
      turno r = turno_v vals_manha \<and>
      startOfDay_submit tz_brt (clock env_1000) \<le> timestamp r \<and>
      timestamp r \<le> endOfDay_submit tz_brt (clock env_1000)"
    by (simp add: ok day_window_1000 reading_0900_def sector0_def vals_manha_def)
  from C1_duplicate_shift_guard [OF ok(1), where records = "[reading_0900]" and s = sector0
      and vals = vals_manha and tz = tz_brt and form = form_manha] found
  have dup: "onSubmit tz_brt env_1000 (Some sector0) form_manha vals_manha [reading_0900]
       = (Some Registro_Duplicado, [reading_0900])"
    by blast
  from C1_duplicate_shift_guard [OF ok(1), where records = "[]" and s = sector0
      and vals = vals_manha and tz = tz_brt and form = form_manha] ok(2)
  have acc: "onSubmit tz_brt env_1000 (Some sector0) form_manha vals_manha []
       = (Some Sucesso, [dataToSave env_1000 sector0 form_manha vals_manha])"
    by simp
  show ?thesis using ok dup acc by simp
qed

text \<open>
  C2. When a form whose temperature and humidity fields hold numbers is accepted, the
  stored document carries those numbers and the two flags are the closed-interval
  comparisons against the sector's bounds, each on its own: a temperature equal to a bound
  is flagged in range, and a reading with only the temperature outside its bounds has
  exactly the temperature flag false.
\<close>

theorem C2_flags_closed_interval:
  assumes "handleSubmit tz env (Some s) form records = (Some Sucesso, records')"
    and "temperature_f form = Numeric t" and "humidity_f form = Numeric h"
    and "temp_min s < temp_max s" and "humidity_min s < humidity_max s"
  shows "\<exists>doc. records' = records @ [doc] \<and> temperature doc = t \<and> humidity doc = h
      \<and> is_temp_ok doc = (temp_min s \<le> t \<and> t \<le> temp_max s)
      \<and> is_humidity_ok doc = (humidity_min s \<le> h \<and> h \<le> humidity_max s)
      \<and> (t = temp_min s \<or> t = temp_max s \<longrightarrow> is_temp_ok doc)
      \<and> ((t < temp_min s \<or> temp_max s < t) \<and> humidity_min s \<le> h \<and> h \<le> humidity_max s
           \<longrightarrow> \<not> is_temp_ok doc \<and> is_humidity_ok doc)"
proof -
  from assms(1) obtain vals where v: "formSchema form = Some vals"
    and sub: "onSubmit tz env (Some s) form vals records = (Some Sucesso, records')"
    by (auto simp: handleSubmit_def split: option.splits)
  from onSubmit_Sucesso [OF sub]
  have r: "records' = records @ [dataToSave env s form vals]" by simp
  from formSchema_numeric [OF v assms(2,3)]
  have n: "temperature_v vals = t" "humidity_v vals = h" by simp_all
  let ?doc = "dataToSave env s form vals"
  have "temperature ?doc = t" "humidity ?doc = h"
    by (simp_all add: dataToSave_def n)
  moreover have "is_temp_ok ?doc = (temp_min s \<le> t \<and> t \<le> temp_max s)"
    by (auto simp: dataToSave_def isTempOutOfRange_def assms(2))
  moreover have "is_humidity_ok ?doc = (humidity_min s \<le> h \<and> h \<le> humidity_max s)"
    by (auto simp: dataToSave_def isHumidityOutOfRange_def assms(3))
  ultimately show ?thesis
    using r assms(4,5) by (intro exI [of _ ?doc]) auto
qed

theorem C2_flags_closed_interval_witness:
  "handleSubmit tz_brt env_1000 (Some sector0) form_manha []
     = (Some Sucesso, [dataToSave env_1000 sector0 form_manha vals_manha])
   \<and> temperature_f form_manha = Numeric (temp_min sector0)
   \<and> temp_min sector0 < temp_max sector0 \<and> humidity_min sector0 < humidity_max sector0
   \<and> (\<exists>doc. [dataToSave env_1000 sector0 form_manha vals_manha] = [doc]
         \<and> temperature doc = 18 \<and> humidity doc = 55 \<and> is_temp_ok doc \<and> is_humidity_ok doc)"
proof -
  have sub: "handleSubmit tz_brt env_1000 (Some sector0) form_manha []
     = (Some Sucesso, [dataToSave env_1000 sector0 form_manha vals_manha])"
    by (simp add: handleSubmit_def formSchema_form_manha onSubmit_def duplicateQuery_def
        env_1000_def)
  have f: "temperature_f form_manha = Numeric 18" "humidity_f form_manha = Numeric 55"
    by (simp_all add: form_manha_def)
  have b: "temp_min sector0 < temp_max sector0" "humidity_min sector0 < humidity_max sector0"
    "temp_min sector0 = 18" "temp_max sector0 = 25" "humidity_min sector0 = 40"
    "humidity_max sector0 = 60"
    by (simp_all add: sector0_def)
  from C2_flags_closed_interval [OF sub f b(1,2)]
  have "\<exists>doc. [dataToSave env_1000 sector0 form_manha vals_manha] = [doc]
         \<and> temperature doc = 18 \<and> humidity doc = 55 \<and> is_temp_ok doc \<and> is_humidity_ok doc"
    by (auto simp: b)
  then show ?thesis
    using sub f b by simp
qed

text \<open>
  C10. Whatever a submission adds to the collection carries the id and the administrator of
  the sector the page holds: a submission adds at most one document, and only while the page
  holds a sector.
\<close>

theorem C10_admin_uid_of_sector:
  assumes "handleSubmit tz env sector form records = (outcome, records')"
  shows "\<exists>added. records' = records @ added \<and> length added \<le> 1
      \<and> (\<forall>doc\<in>set added. \<exists>s. sector = Some s \<and> admin_uid doc = sector_admin_uid s
             \<and> sector_id doc = sector_doc_id s)"
proof (cases "formSchema form")
  case None
  with assms have "records' = records @ []"
    by (simp add: handleSubmit_def)
  then show ?thesis by (intro exI [of _ "[]"]) simp
next
  case (Some vals)
  with assms have "onSubmit tz env sector form vals records = (outcome, records')"
    by (simp add: handleSubmit_def)
  from onSubmit_appends [OF this] show ?thesis
  proof
    assume "records' = records"
    then show ?thesis by (intro exI [of _ "[]"]) simp
  next
    assume "\<exists>s. sector = Some s \<and> records' = records @ [dataToSave env s form vals]"
    then obtain s where s: "sector = Some s" "records' = records @ [dataToSave env s form vals]"
      by blast
    show ?thesis
      by (intro exI [of _ "[dataToSave env s form vals]"]) (simp add: s dataToSave_def)
  qed
qed

theorem C10_admin_uid_of_sector_witness:
  "handleSubmit tz_brt env_1000 (Some sector0) form_manha []
     = (Some Sucesso, [dataToSave env_1000 sector0 form_manha vals_manha])
   \<and> admin_uid (dataToSave env_1000 sector0 form_manha vals_manha) = ''admin1''
   \<and> (\<exists>added. [dataToSave env_1000 sector0 form_manha vals_manha] = [] @ added
         \<and> length added \<le> 1
         \<and> list_all (\<lambda>doc. admin_uid doc = sector_admin_uid sector0
                \<and> sector_id doc = sector_doc_id sector0) added)"
proof -
  have sub: "handleSubmit tz_brt env_1000 (Some sector0) form_manha []
     = (Some Sucesso, [dataToSave env_1000 sector0 form_manha vals_manha])"
    by (simp add: handleSubmit_def formSchema_form_manha onSubmit_def duplicateQuery_def
        env_1000_def)
  have a: "admin_uid (dataToSave env_1000 sector0 form_manha vals_manha) = ''admin1''"
    by (simp add: dataToSave_def sector0_def)
  from C10_admin_uid_of_sector [OF sub]
  have "\<exists>added. [dataToSave env_1000 sector0 form_manha vals_manha] = [] @ added
         \<and> length added \<le> 1
         \<and> list_all (\<lambda>doc. admin_uid doc = sector_admin_uid sector0
                \<and> sector_id doc = sector_doc_id sector0) added"
    by (auto simp: list_all_iff)
  with sub a show ?thesis by simp
qed

text \<open>
  C8, as the code has it. A field that holds no value (\<^verbatim>\<open>undefined\<close> or the empty string)
  never raises the out-of-range warning; a field that holds a number raises it exactly when
  the number lies outside the sector's bounds, whatever the other field holds.
\<close>

theorem C8_empty_field_never_out_of_range:
  "isTempOutOfRange sector Empty = False \<and> isTempOutOfRange sector Undefined = False
   \<and> isHumidityOutOfRange sector Empty = False \<and> isHumidityOutOfRange sector Undefined = False
   \<and> isTempOutOfRange (Some s) (temperature_f (form\<lparr>temperature_f := Numeric t\<rparr>))
        = (t < temp_min s \<or> temp_max s < t)
   \<and> isHumidityOutOfRange (Some s) (humidity_f (form\<lparr>humidity_f := Numeric h\<rparr>))
        = (h < humidity_min s \<or> humidity_max s < h)"
  by (auto simp: isTempOutOfRange_def isHumidityOutOfRange_def split: option.splits)

theorem C8_empty_field_never_out_of_range_witness:
  "isTempOutOfRange (Some sector0) Empty = False
   \<and> isHumidityOutOfRange (Some sector0) (humidity_f form_no_humidity) = False
   \<and> isTempOutOfRange (Some sector0) (temperature_f form_no_humidity) = True"
  using C8_empty_field_never_out_of_range [where sector = "Some sector0" and s = sector0
      and form = form_no_humidity and t = 30 and h = 50]
  by (simp add: form_no_humidity_def sector0_def)

text \<open>
  C8, as the specification words it, fails twice. While the humidity field is still empty,
  a temperature of 30 against the bounds 18 to 25 already raises the out-of-range warning.
  And a form submitted with the temperature left empty is accepted: the schema reads the
  empty text as 0, and the stored document carries temperature 0 flagged in range.
\<close>

theorem C8_counterexample:
  "humidity_f form_no_humidity = Empty
   \<and> isTempOutOfRange (Some sector0) (temperature_f form_no_humidity) = True
   \<and> temperature_f form_no_temperature = Empty
   \<and> handleSubmit tz_brt env_1000 (Some sector0) form_no_temperature []
      = (Some Sucesso,
         [\<lparr>record_doc_id = ''r2'', temperature = 0, humidity = 50, turno = Tarde,
           observation = [], sector_id = ''s1'', timestamp = 1710075600250,
           is_temp_ok = True, is_humidity_ok = True, admin_uid = ''admin1''\<rparr>])"
  by (simp add: form_no_humidity_def form_no_temperature_def sector0_def env_1000_def
      isTempOutOfRange_def isHumidityOutOfRange_def handleSubmit_def formSchema_def
      onSubmit_def duplicateQuery_def dataToSave_def)

text \<open>
  C7, at the failing input. A night reading of the sector was stored at 23:59:59.500 of the
  local day; a submission for the same sector and shift at 23:59:59.900 of that day queries
  a window that ends at 23:59:59.000, finds nothing and is stored as a second reading.
\<close>

theorem C7_final_second_not_queried:
  "Day (LocalTime tz_brt (timestamp reading_235959)) = Day (LocalTime tz_brt (clock env_235959))
   \<and> sector_id reading_235959 = sector_doc_id sector0
   \<and> turno reading_235959 = turno_v vals_noite
   \<and> endOfDay_submit tz_brt (clock env_235959) = 1710125999000
   \<and> setHours tz_brt (clock env_235959) 23 59 59 999 = 1710125999999
   \<and> duplicateQuery tz_brt (clock env_235959) sector0 vals_noite [reading_235959] = []
   \<and> handleSubmit tz_brt env_235959 (Some sector0) form_noite [reading_235959]
      = (Some Sucesso, [reading_235959, dataToSave env_235959 sector0 form_noite vals_noite])"
proof -
  have c: "clock env_235959 = 1710125999900" "\<not> getDocs_fails env_235959"
    "\<not> addDoc_fails env_235959"
    by (simp_all add: env_235959_def)
  have t: "timestamp reading_235959 = 1710125999500"
    "sector_id reading_235959 = sector_doc_id sector0"
    "turno reading_235959 = turno_v vals_noite"
    by (simp_all add: reading_235959_def sector0_def vals_noite_def)
  have d: "Day (LocalTime tz_brt (timestamp reading_235959))
      = Day (LocalTime tz_brt (clock env_235959))"
    unfolding t(1) c(1) by code_simp
  have w: "endOfDay_submit tz_brt (clock env_235959) = 1710125999000"
    unfolding c(1) by (rule day_window_235959)
  have e: "setHours tz_brt (clock env_235959) 23 59 59 999 = 1710125999999"
    unfolding c(1) by code_simp
  have q: "duplicateQuery tz_brt (clock env_235959) sector0 vals_noite [reading_235959] = []"
    by (simp add: duplicateQuery_def t w)
  have h: "handleSubmit tz_brt env_235959 (Some sector0) form_noite [reading_235959]
      = (Some Sucesso, [reading_235959, dataToSave env_235959 sector0 form_noite vals_noite])"
    by (simp add: handleSubmit_def formSchema_form_noite onSubmit_def q c(2,3))
  show ?thesis
    by (intro conjI) (fact d t(2) t(3) w e q h)+
qed

section \<open>The daily status\<close>

lemma initialStatus_fold_other:
  "k \<notin> sector_doc_id ` set xs \<Longrightarrow> fold set_initial xs st k = st k"
  by (induction xs arbitrary: st) (auto simp: set_initial_def)

lemma initialStatus_fold_member:
  "k \<in> sector_doc_id ` set xs \<Longrightarrow>
   \<exists>e. fold set_initial xs st k = Some e \<and> shifts e = (\<lambda>_. False)"
proof (induction xs arbitrary: st)
  case Nil
  then show ?case by simp
next
  case (Cons x xs)
  show ?case
  proof (cases "k \<in> sector_doc_id ` set xs")
    case True
    from Cons.IH [OF True] show ?thesis by simp
  next
    case False
    with Cons.prems have "k = sector_doc_id x" by auto
    with False show ?thesis
      by (simp add: initialStatus_fold_other) (simp add: set_initial_def)
  qed
qed

lemma initialStatus_member:
  "sector \<in> set sectorsData \<Longrightarrow>
   \<exists>e. initialStatus sectorsData (sector_doc_id sector) = Some e \<and> shifts e = (\<lambda>_. False)"
  unfolding initialStatus_def by (rule initialStatus_fold_member) simp

lemma fold_mark_shift:
  "\<forall>r\<in>set docs. sector_id r = sid \<Longrightarrow>
   fold mark_shift docs st k =
     (if k = sid
      then map_option (\<lambda>e. e\<lparr>shifts := (\<lambda>t. shifts e t \<or> t \<in> turno ` set docs)\<rparr>) (st k)
      else st k)"
proof (induction docs arbitrary: st)
  case Nil
  then show ?case by (cases "st k") auto
next
  case (Cons r docs)
  have sid: "sector_id r = sid" using Cons.prems by simp
  have rest: "\<forall>r\<in>set docs. sector_id r = sid" using Cons.prems by simp
  show ?case
  proof (cases "st sid")
    case None
    then have "mark_shift r st = st" by (simp add: mark_shift_def sid)
    with Cons.IH [OF rest, of st] None show ?thesis by simp
  next
    case (Some e)
    then have m: "mark_shift r st = st(sid \<mapsto> e\<lparr>shifts := (shifts e)(turno r := True)\<rparr>)"
      by (simp add: mark_shift_def sid)
    have ih: "fold mark_shift docs (mark_shift r st) k =
       (if k = sid
        then map_option (\<lambda>e. e\<lparr>shifts := (\<lambda>t. shifts e t \<or> t \<in> turno ` set docs)\<rparr>)
               (mark_shift r st k)
        else mark_shift r st k)"
      by (rule Cons.IH [OF rest])
    have mk: "mark_shift r st k =
       (if k = sid then Some (e\<lparr>shifts := (shifts e)(turno r := True)\<rparr>) else st k)"
      by (simp add: m)
    have "fold mark_shift (r # docs) st k = fold mark_shift docs (mark_shift r st) k"
      by simp
    also note ih
    also have "(if k = sid
        then map_option (\<lambda>e. e\<lparr>shifts := (\<lambda>t. shifts e t \<or> t \<in> turno ` set docs)\<rparr>)
               (mark_shift r st k)
        else mark_shift r st k) =
       (if k = sid
        then map_option (\<lambda>e. e\<lparr>shifts := (\<lambda>t. shifts e t \<or> t \<in> turno ` set (r # docs))\<rparr>)
               (st k)
        else st k)"
      using Some by (cases "k = sid") (auto simp: m fun_eq_iff)
    finally show ?thesis .
  qed
qed

lemma recordsSnapshot_lookup:
  assumes "\<forall>r\<in>set docs. sector_id r = sector_doc_id sector"
  shows "recordsSnapshot sector docs st k =
     (if k = sector_doc_id sector
      then map_option (\<lambda>e. e\<lparr>shifts := (\<lambda>t. t \<in> turno ` set docs)\<rparr>) (st k)
      else st k)"
proof (cases "st (sector_doc_id sector)")
  case None
  then show ?thesis
    by (simp add: recordsSnapshot_def fold_mark_shift [OF assms])
next
  case (Some e)
  then show ?thesis
    by (simp add: recordsSnapshot_def fold_mark_shift [OF assms])
qed

lemma qRecords_sector: "\<forall>r\<in>set (qRecords tz today sector records). sector_id r = sector_doc_id sector"
  by (simp add: qRecords_def)

lemma turno_qRecords:
  "t \<in> turno ` set (qRecords tz today sector records) \<longleftrightarrow>
     (\<exists>r\<in>set records. sector_id r = sector_doc_id sector \<and> turno r = t \<and>
        startOfDay_today tz today \<le> timestamp r \<and> timestamp r \<le> endOfDay_today tz today)"
  by (auto simp: qRecords_def)

lemma sectorsStatus_snoc:
  "sectorsStatus tz today sectorsData records (ds @ [d]) =
     recordsSnapshot d (qRecords tz today d records) (sectorsStatus tz today sectorsData records ds)"
  by (simp add: sectorsStatus_def)

lemma sectorsStatus_lookup:
  assumes "sector \<in> set sectorsData"
  shows "\<exists>e. sectorsStatus tz today sectorsData records deliveries (sector_doc_id sector) = Some e
      \<and> (\<forall>t. shifts e t =
            (sector_doc_id sector \<in> sector_doc_id ` set deliveries \<and>
             (\<exists>r\<in>set records. sector_id r = sector_doc_id sector \<and> turno r = t \<and>
                startOfDay_today tz today \<le> timestamp r \<and>
                timestamp r \<le> endOfDay_today tz today)))"
proof (induction deliveries rule: rev_induct)
  case Nil
  from initialStatus_member [OF assms] show ?case
    by (auto simp: sectorsStatus_def)
next
  case (snoc d ds)
  then obtain e where e: "sectorsStatus tz today sectorsData records ds (sector_doc_id sector) = Some e"
    and sh: "\<And>t. shifts e t =
            (sector_doc_id sector \<in> sector_doc_id ` set ds \<and>
             (\<exists>r\<in>set records. sector_id r = sector_doc_id sector \<and> turno r = t \<and>
                startOfDay_today tz today \<le> timestamp r \<and>
                timestamp r \<le> endOfDay_today tz today))"
    by blast
  show ?case
  proof (cases "sector_doc_id sector = sector_doc_id d")
    case True
    have "sectorsStatus tz today sectorsData records (ds @ [d]) (sector_doc_id sector)
        = Some (e\<lparr>shifts := (\<lambda>t. t \<in> turno ` set (qRecords tz today d records))\<rparr>)"
      by (simp add: sectorsStatus_snoc recordsSnapshot_lookup [OF qRecords_sector] e True [symmetric])
    then show ?thesis
      by (simp add: turno_qRecords True)
  next
    case False
    have "sectorsStatus tz today sectorsData records (ds @ [d]) (sector_doc_id sector) = Some e"
      by (simp add: sectorsStatus_snoc recordsSnapshot_lookup [OF qRecords_sector] e False)
    then show ?thesis
      using sh False by auto
  qed
qed

lemma today_window_1000:
  "startOfDay_today tz_brt 1710075600000 = 1710039600000"
  "endOfDay_today tz_brt 1710075600000 = 1710125999999"
  by code_simp+

text \<open>
  C3. For every sector of the sectors snapshot: its entry starts with all three shifts
  false; after any sequence of records snapshots, a shift of the sector is true exactly
  when the sector's snapshot has arrived and some reading of that sector and shift lies in
  today's window, however many there are; a sector with no reading in the window has all
  three shifts false.
\<close>

theorem C3_daily_status:
  assumes "sector \<in> set sectorsData"
  shows "(\<exists>e. initialStatus sectorsData (sector_doc_id sector) = Some e \<and> (\<forall>t. \<not> shifts e t))
     \<and> (\<exists>e. sectorsStatus tz today sectorsData records deliveries (sector_doc_id sector) = Some e
          \<and> (\<forall>t. shifts e t =
                (sector_doc_id sector \<in> sector_doc_id ` set deliveries \<and>
                 (\<exists>r\<in>set records. sector_id r = sector_doc_id sector \<and> turno r = t \<and>
                    startOfDay_today tz today \<le> timestamp r \<and>
                    timestamp r \<le> endOfDay_today tz today)))
          \<and> (\<not> (\<exists>r\<in>set records. sector_id r = sector_doc_id sector \<and>
                    startOfDay_today tz today \<le> timestamp r \<and>
                    timestamp r \<le> endOfDay_today tz today)
               \<longrightarrow> (\<forall>t. \<not> shifts e t)))"
proof -
  from initialStatus_member [OF assms]
  have init: "\<exists>e. initialStatus sectorsData (sector_doc_id sector) = Some e \<and> (\<forall>t. \<not> shifts e t)"
    by auto
  from sectorsStatus_lookup [OF assms, of tz today records deliveries]
  obtain e where e: "sectorsStatus tz today sectorsData records deliveries (sector_doc_id sector) = Some e"
    and sh: "\<forall>t. shifts e t =
                (sector_doc_id sector \<in> sector_doc_id ` set deliveries \<and>
                 (\<exists>r\<in>set records. sector_id r = sector_doc_id sector \<and> turno r = t \<and>
                    startOfDay_today tz today \<le> timestamp r \<and>
                    timestamp r \<le> endOfDay_today tz today))"
    by blast
  from sh have none: "\<not> (\<exists>r\<in>set records. sector_id r = sector_doc_id sector \<and>
                    startOfDay_today tz today \<le> timestamp r \<and>
                    timestamp r \<le> endOfDay_today tz today)
               \<longrightarrow> (\<forall>t. \<not> shifts e t)"
    by blast
  from init e sh none show ?thesis by blast
qed

theorem C3_daily_status_witness:
  "sector0 \<in> set (sectors_c store0) \<and> sector1 \<in> set (sectors_c store0)
   \<and> (\<exists>e. sectorsStatus tz_brt 1710075600000 (sectors_c store0) (records_c store0)
             [sector1, sector0] ''s1'' = Some e
          \<and> shifts e Manha \<and> \<not> shifts e Tarde \<and> shifts e Noite)
   \<and> (\<exists>e. sectorsStatus tz_brt 1710075600000 (sectors_c store0) (records_c store0)
             [sector1, sector0] ''s2'' = Some e
          \<and> \<not> shifts e Manha \<and> \<not> shifts e Tarde \<and> \<not> shifts e Noite)"
proof -
  have m: "sector0 \<in> set (sectors_c store0)" "sector1 \<in> set (sectors_c store0)"
    by (simp_all add: store0_def)
  have ids: "sector_doc_id sector0 = ''s1''" "sector_doc_id sector1 = ''s2''"
    by (simp_all add: sector0_def sector1_def)
  have rs: "records_c store0 = [reading_0900, reading_yesterday, reading_0930, reading_235959]"
    by (simp add: store0_def)
  have r: "sector_id reading_0900 = ''s1''" "turno reading_0900 = Manha"
      "timestamp reading_0900 = 1710072000000"
      "sector_id reading_yesterday = ''s2''" "turno reading_yesterday = Noite"
      "timestamp reading_yesterday = 1710032400000"
      "sector_id reading_0930 = ''s1''" "turno reading_0930 = Manha"
      "timestamp reading_0930 = 1710073800000"
      "sector_id reading_235959 = ''s1''" "turno reading_235959 = Noite"
      "timestamp reading_235959 = 1710125999500"
    by (simp_all add: reading_0900_def reading_yesterday_def reading_0930_def reading_235959_def)
  from C3_daily_status [OF m(1), of tz_brt 1710075600000 "records_c store0" "[sector1, sector0]"]
  have a: "\<exists>e. sectorsStatus tz_brt 1710075600000 (sectors_c store0) (records_c store0)
             [sector1, sector0] ''s1'' = Some e
          \<and> shifts e Manha \<and> \<not> shifts e Tarde \<and> shifts e Noite"
    by (auto simp: ids rs r today_window_1000)
  from C3_daily_status [OF m(2), of tz_brt 1710075600000 "records_c store0" "[sector1, sector0]"]
  have b: "\<exists>e. sectorsStatus tz_brt 1710075600000 (sectors_c store0) (records_c store0)
             [sector1, sector0] ''s2'' = Some e
          \<and> \<not> shifts e Manha \<and> \<not> shifts e Tarde \<and> \<not> shifts e Noite"
    by (auto simp: ids rs r today_window_1000)
  from m a b show ?thesis by blast
qed

section \<open>Deleting a sector\<close>

lemma deleteSector_succeeds:
  "\<not> query_fails env \<Longrightarrow> \<forall>i. \<not> deleteDoc_fails env i \<Longrightarrow> \<not> deleteSectorDoc_fails env \<Longrightarrow>
   fst (deleteSector env sectorId st) = Sucesso_deletado"
  by (simp add: deleteSector_def Let_def list_ex_iff)

lemma deleteSector_fields:
  assumes "deleteSector env sectorId st = (Sucesso_deletado, st')"
  shows "records_c st' = filter (\<lambda>r. record_doc_id r \<notin> record_doc_id ` {x \<in> set (records_c st). sector_id x = sectorId}) (records_c st)"
    and "sectors_c st' = filter (\<lambda>s. sector_doc_id s \<noteq> sectorId) (sectors_c st)"
proof -
  let ?ids = "map record_doc_id (filter (\<lambda>r. sector_id r = sectorId) (records_c st))"
  from assms have nofail: "\<not> query_fails env" "\<not> list_ex (deleteDoc_fails env) ?ids"
    "\<not> deleteSectorDoc_fails env"
    by (auto simp: deleteSector_def Let_def split: if_splits)
  from nofail(2) have all: "filter (\<lambda>i. \<not> deleteDoc_fails env i) ?ids = ?ids"
    by (simp add: list_ex_iff)
  have "deleteSector env sectorId st = (Sucesso_deletado,
      (st\<lparr>records_c := filter (\<lambda>r. record_doc_id r \<notin> set ?ids) (records_c st)\<rparr>)
       \<lparr>sectors_c := filter (\<lambda>s. sector_doc_id s \<noteq> sectorId) (sectors_c st)\<rparr>)"
    using nofail by (simp add: deleteSector_def Let_def all del: set_map set_filter)
  with assms have "st' = (st\<lparr>records_c := filter (\<lambda>r. record_doc_id r \<notin> set ?ids) (records_c st)\<rparr>)
       \<lparr>sectors_c := filter (\<lambda>s. sector_doc_id s \<noteq> sectorId) (sectors_c st)\<rparr>"
    by simp
  then show "records_c st' = filter (\<lambda>r. record_doc_id r \<notin> record_doc_id ` {x \<in> set (records_c st). sector_id x = sectorId}) (records_c st)"
    and "sectors_c st' = filter (\<lambda>s. sector_doc_id s \<noteq> sectorId) (sectors_c st)"
    by simp_all
qed

text \<open>
  C9. When \<^verbatim>\<open>deleteSector\<close> ends with its success notification, no reading of the
  collection refers to the sector any more (a query by that sector id returns nothing), the
  sector's document is gone, and the other sectors are all kept.
\<close>

theorem C9_delete_sector_cascades:
  assumes "deleteSector env sectorId st = (Sucesso_deletado, st')"
  shows "(\<forall>r\<in>set (records_c st'). sector_id r \<noteq> sectorId)
       \<and> filter (\<lambda>r. sector_id r = sectorId) (records_c st') = []
       \<and> (\<forall>s\<in>set (sectors_c st'). sector_doc_id s \<noteq> sectorId)
       \<and> sectors_c st' = filter (\<lambda>s. sector_doc_id s \<noteq> sectorId) (sectors_c st)
       \<and> set (records_c st') \<subseteq> set (records_c st)"
proof -
  note rc = deleteSector_fields(1) [OF assms] and sc = deleteSector_fields(2) [OF assms]
  have gone: "\<forall>r\<in>set (records_c st'). sector_id r \<noteq> sectorId"
    unfolding rc by auto
  then have q: "filter (\<lambda>r. sector_id r = sectorId) (records_c st') = []"
    by (simp add: filter_empty_conv)
  have s1: "\<forall>s\<in>set (sectors_c st'). sector_doc_id s \<noteq> sectorId"
    unfolding sc by simp
  have sub: "set (records_c st') \<subseteq> set (records_c st)"
    unfolding rc by auto
  from gone q s1 sc sub show ?thesis
    by (intro conjI)
qed

theorem C9_delete_sector_cascades_witness:
  "deleteSector env_delete_ok ''s1'' store0
     = (Sucesso_deletado, \<lparr>sectors_c = [sector1], records_c = [reading_yesterday]\<rparr>)
   \<and> filter (\<lambda>r. sector_id r = ''s1'') [reading_yesterday] = []
   \<and> list_all (\<lambda>s. sector_doc_id s \<noteq> ''s1'') [sector1]"
proof -
  have d: "deleteSector env_delete_ok ''s1'' store0
     = (Sucesso_deletado, \<lparr>sectors_c = [sector1], records_c = [reading_yesterday]\<rparr>)"
    by (simp add: deleteSector_def env_delete_ok_def store0_def sector0_def sector1_def
        reading_0900_def reading_yesterday_def reading_0930_def reading_235959_def)
  from C9_delete_sector_cascades [OF d] show ?thesis
    using d by (simp add: list_all_iff)
qed

section \<open>The calendar and the day key\<close>

lemma month_day_of_doy:
  fixes doy :: int
  assumes "0 \<le> doy" "doy \<le> 365"
  defines "mp \<equiv> (5 * doy + 2) div 153"
  shows "0 \<le> mp \<and> mp \<le> 11 \<and> 1 \<le> doy - (153 * mp + 2) div 5 + 1
       \<and> doy - (153 * mp + 2) div 5 + 1 \<le> 31"
proof -
  define r where "r = (5 * doy + 2) mod 153"
  define e where "e = (153 * mp + 2) div 5"
  define s where "s = (153 * mp + 2) mod 5"
  have re: "5 * doy + 2 = 153 * mp + r"
    unfolding mp_def r_def by (rule mult_div_mod_eq [symmetric])
  have rb: "0 \<le> r" "r < 153"
    unfolding r_def by (rule pos_mod_sign, simp) (rule pos_mod_bound, simp)
  have se: "153 * mp + 2 = 5 * e + s"
    unfolding e_def s_def by (rule mult_div_mod_eq [symmetric])
  have sb: "0 \<le> s" "s < 5"
    unfolding s_def by (rule pos_mod_sign, simp) (rule pos_mod_bound, simp)
  have "0 \<le> mp" using re rb assms by linarith
  moreover have "mp \<le> 11" using re rb assms by linarith
  moreover have "1 \<le> doy - e + 1" using re rb se sb assms by linarith
  moreover have "doy - e + 1 \<le> 31" using re rb se sb assms by linarith
  ultimately show ?thesis unfolding e_def by blast
qed

lemma doy_bounds:
  fixes dq :: int
  assumes "0 \<le> dq" "dq \<le> 1460"
  shows "0 \<le> dq - min 3 (dq div 365) * 365 \<and> dq - min 3 (dq div 365) * 365 \<le> 365"
proof -
  define a where "a = dq div 365"
  define r where "r = dq mod 365"
  have re: "dq = 365 * a + r"
    unfolding a_def r_def by (rule mult_div_mod_eq [symmetric])
  have rb: "0 \<le> r" "r < 365"
    unfolding r_def by (rule pos_mod_sign, simp) (rule pos_mod_bound, simp)
  have a: "0 \<le> a" "a \<le> 4" using re rb assms by linarith+
  have "0 \<le> dq - min 3 a * 365 \<and> dq - min 3 a * 365 \<le> 365"
  proof (cases "a \<le> 3")
    case True
    then have "min 3 a = a" by simp
    then show ?thesis using re rb by linarith
  next
    case False
    with a have "a = 4" by linarith
    then have "min 3 a = 3" by simp
    then show ?thesis using re rb assms \<open>a = 4\<close> by linarith
  qed
  then show ?thesis unfolding a_def .
qed

lemma civil_from_days_bounds:
  "0 \<le> fst (snd (civil_from_days d)) \<and> fst (snd (civil_from_days d)) \<le> 11
   \<and> 1 \<le> snd (snd (civil_from_days d)) \<and> snd (snd (civil_from_days d)) \<le> 31"
proof -
  define dc where "dc = (d + 719468) mod 146097
       - min 3 ((d + 719468) mod 146097 div 36524) * 36524"
  define dq where "dq = dc mod 1461"
  define doy where "doy = dq - min 3 (dq div 365) * 365"
  define mp where "mp = (5 * doy + 2) div 153"
  have "0 \<le> dq" "dq < 1461"
    unfolding dq_def by (rule pos_mod_sign, simp) (rule pos_mod_bound, simp)
  then have dq: "0 \<le> dq" "dq \<le> 1460" by linarith+
  from doy_bounds [OF dq] have doy: "0 \<le> doy" "doy \<le> 365"
    unfolding doy_def by blast+
  from month_day_of_doy [OF doy]
  have b: "0 \<le> mp" "mp \<le> 11" "1 \<le> doy - (153 * mp + 2) div 5 + 1"
    "doy - (153 * mp + 2) div 5 + 1 \<le> 31"
    unfolding mp_def by blast+
  have c: "civil_from_days d =
     (let y = ((d + 719468) div 146097) * 400
            + min 3 ((d + 719468) mod 146097 div 36524) * 100 + (dc div 1461) * 4
            + min 3 (dq div 365);
          m = (if mp < 10 then mp + 2 else mp - 10)
      in (if m \<le> 1 then y + 1 else y, m, doy - (153 * mp + 2) div 5 + 1))"
    unfolding civil_from_days_def Let_def mp_def doy_def dq_def dc_def by (rule refl)
  have m: "fst (snd (civil_from_days d)) = (if mp < 10 then mp + 2 else mp - 10)"
    unfolding c Let_def by simp
  have dt: "snd (snd (civil_from_days d)) = doy - (153 * mp + 2) div 5 + 1"
    unfolding c Let_def by simp
  show ?thesis
    unfolding m dt using b by auto
qed



lemma digit_value_nth:
  assumes "k < 10"
  shows "digit_value (''0123456789'' ! k) = Some k"
proof -
  from assms have "k \<in> {0, 1, 2, 3, 4, 5, 6, 7, 8, 9}" by auto
  then show ?thesis
    by (elim insertE emptyE) (simp_all add: digit_value_def)
qed

lemma digit_value_digit_char: "digit_value (digit_char n) = Some (n mod 10)"
  unfolding digit_char_def by (rule digit_value_nth) simp

lemma digit_char_mod: "digit_char (n mod 10) = digit_char n"
  by (simp add: digit_char_def)

lemma digit_char_0: "digit_char 0 = CHR ''0''"
  by (simp add: digit_char_def)

lemma string_of_nat_1: "k < 10 \<Longrightarrow> string_of_nat k = [digit_char k]"
  by (simp add: string_of_nat.simps)

lemma string_of_nat_2:
  "10 \<le> k \<Longrightarrow> k < 100 \<Longrightarrow> string_of_nat k = [digit_char (k div 10), digit_char k]"
  by (subst string_of_nat.simps) (simp add: string_of_nat_1 digit_char_mod)

lemma string_of_nat_3:
  "100 \<le> k \<Longrightarrow> k < 1000 \<Longrightarrow>
   string_of_nat k = [digit_char (k div 100), digit_char (k div 10), digit_char k]"
  by (subst string_of_nat.simps) (simp add: string_of_nat_2 digit_char_mod div_mult2_eq [symmetric])

lemma string_of_nat_4:
  "1000 \<le> k \<Longrightarrow> k < 10000 \<Longrightarrow>
   string_of_nat k = [digit_char (k div 1000), digit_char (k div 100), digit_char (k div 10),
                      digit_char k]"
  by (subst string_of_nat.simps) (simp add: string_of_nat_3 digit_char_mod div_mult2_eq [symmetric])

lemma pad2:
  assumes "k < 100"
  shows "replicate (2 - length (string_of_nat k)) (CHR ''0'') @ string_of_nat k
       = [digit_char (k div 10), digit_char k]"
proof (cases "k < 10")
  case True
  then show ?thesis by (simp add: string_of_nat_1 digit_char_0)
next
  case False
  with assms show ?thesis by (simp add: string_of_nat_2)
qed

lemma replicate_zeros:
  "replicate (Suc 0) c = [c]" "replicate 2 c = [c, c]" "replicate 3 c = [c, c, c]"
  by (simp_all add: numeral_2_eq_2 numeral_3_eq_3)

lemma pad4:
  assumes "k < 10000"
  shows "replicate (4 - length (string_of_nat k)) (CHR ''0'') @ string_of_nat k
       = [digit_char (k div 1000), digit_char (k div 100), digit_char (k div 10), digit_char k]"
proof -
  consider "k < 10" | "10 \<le> k" "k < 100" | "100 \<le> k" "k < 1000" | "1000 \<le> k"
    by linarith
  then show ?thesis
  proof cases
    case 1
    then have z: "k div 1000 = 0" "k div 100 = 0" "k div 10 = 0" by simp_all
    have l: "4 - length (string_of_nat k) = 3" by (simp add: string_of_nat_1 [OF 1])
    show ?thesis
      unfolding l z by (simp add: string_of_nat_1 [OF 1] digit_char_0 replicate_zeros)
  next
    case 2
    then have z: "k div 1000 = 0" "k div 100 = 0" by simp_all
    have l: "4 - length (string_of_nat k) = 2" by (simp add: string_of_nat_2 [OF 2])
    show ?thesis
      unfolding l z by (simp add: string_of_nat_2 [OF 2] digit_char_0 replicate_zeros)
  next
    case 3
    then have z: "k div 1000 = 0" by simp
    have l: "4 - length (string_of_nat k) = Suc 0" by (simp add: string_of_nat_3 [OF 3])
    show ?thesis
      unfolding l z by (simp add: string_of_nat_3 [OF 3] digit_char_0 replicate_zeros)
  next
    case 4
    with assms show ?thesis by (simp add: string_of_nat_4)
  qed
qed

lemma addLeadingZeros_2:
  "0 \<le> n \<Longrightarrow> n < 100 \<Longrightarrow>
   addLeadingZeros n 2 = [digit_char (nat n div 10), digit_char (nat n)]"
  by (simp add: addLeadingZeros_def Let_def pad2)

lemma addLeadingZeros_4:
  "0 \<le> n \<Longrightarrow> n < 10000 \<Longrightarrow>
   addLeadingZeros n 4 = [digit_char (nat n div 1000), digit_char (nat n div 100),
                          digit_char (nat n div 10), digit_char (nat n)]"
  by (simp add: addLeadingZeros_def Let_def pad4)

lemma digits_value_2:
  "k < 100 \<Longrightarrow> digits_value [digit_char (k div 10), digit_char k] = Some k"
  by (simp add: digits_value_def digit_value_digit_char)

lemma digits_value_4:
  assumes "k < 10000"
  shows "digits_value [digit_char (k div 1000), digit_char (k div 100), digit_char (k div 10),
      digit_char k] = Some k"
proof -
  define q1 where "q1 = k div 10"
  define q2 where "q2 = k div 100"
  define q3 where "q3 = k div 1000"
  have e1: "k = 10 * q1 + k mod 10"
    unfolding q1_def by (rule mult_div_mod_eq [symmetric])
  have "q1 div 10 = q2" "q2 div 10 = q3"
    unfolding q1_def q2_def q3_def by (simp_all add: div_mult2_eq [symmetric])
  then have e2: "q1 = 10 * q2 + q1 mod 10" and e3: "q2 = 10 * q3 + q2 mod 10"
    using mult_div_mod_eq [of 10 q1] mult_div_mod_eq [of 10 q2] by simp_all
  have "q3 < 10" unfolding q3_def using assms by simp
  then have e4: "q3 mod 10 = q3" by simp
  define r1 where "r1 = q1 mod 10"
  define r2 where "r2 = q2 mod 10"
  define r0 where "r0 = k mod 10"
  have "10 * (10 * (10 * q3 + r2) + r1) + r0 = k"
    using e1 e2 e3 unfolding r1_def [symmetric] r2_def [symmetric] r0_def [symmetric]
    by presburger
  then show ?thesis
    unfolding q1_def [symmetric] q2_def [symmetric] q3_def [symmetric]
    by (simp add: digits_value_def digit_value_digit_char e4 r1_def r2_def r0_def)
qed


lemma century_bounds:
  fixes doe :: int
  assumes "0 \<le> doe" "doe \<le> 146096"
  defines "c \<equiv> min 3 (doe div 36524)"
  shows "0 \<le> c \<and> c \<le> 3 \<and> 0 \<le> doe - c * 36524 \<and> doe - c * 36524 \<le> 36524"
proof -
  define k where "k = doe div 36524"
  define r where "r = doe mod 36524"
  have re: "doe = 36524 * k + r"
    unfolding k_def r_def by (rule mult_div_mod_eq [symmetric])
  have rb: "0 \<le> r" "r < 36524"
    unfolding r_def by (rule pos_mod_sign, simp) (rule pos_mod_bound, simp)
  have k: "0 \<le> k" "k \<le> 4" using re rb assms(1,2) by linarith+
  have "0 \<le> min 3 k \<and> min 3 k \<le> 3 \<and> 0 \<le> doe - min 3 k * 36524
      \<and> doe - min 3 k * 36524 \<le> 36524"
  proof (cases "k \<le> 3")
    case True
    then have "min 3 k = k" by simp
    then show ?thesis using re rb k by linarith
  next
    case False
    with k have "k = 4" by linarith
    then have "min 3 k = 3" by simp
    then show ?thesis using re rb assms(1,2) \<open>k = 4\<close> by linarith
  qed
  then show ?thesis unfolding c_def k_def .
qed

lemma year_of_era:
  fixes c q a :: int
  assumes "0 \<le> c" "c \<le> 3" "0 \<le> q" "q \<le> 24" "0 \<le> a" "a \<le> 3"
  defines "yoe \<equiv> c * 100 + q * 4 + a"
  shows "yoe div 4 = c * 25 + q" "yoe div 100 = c" "0 \<le> yoe" "yoe \<le> 399"
proof -
  have "yoe = 4 * (c * 25 + q) + a" by (simp add: yoe_def)
  from int_div_pos_eq [OF this] assms(5,6) show "yoe div 4 = c * 25 + q" by linarith
  have "yoe = 100 * c + (q * 4 + a)" by (simp add: yoe_def)
  moreover have "0 \<le> q * 4 + a" "q * 4 + a < 100" using assms by linarith+
  ultimately show "yoe div 100 = c" by (rule int_div_pos_eq)
  show "0 \<le> yoe" "yoe \<le> 399" unfolding yoe_def using assms by linarith+
qed

lemma civil_from_days_unfold:
  fixes d :: int
  defines "z \<equiv> d + 719468"
  defines "doe \<equiv> z mod 146097"
  defines "c \<equiv> min 3 (doe div 36524)"
  defines "dc \<equiv> doe - c * 36524"
  defines "dq \<equiv> dc mod 1461"
  defines "a \<equiv> min 3 (dq div 365)"
  defines "doy \<equiv> dq - a * 365"
  defines "y \<equiv> z div 146097 * 400 + c * 100 + dc div 1461 * 4 + a"
  defines "mp \<equiv> (5 * doy + 2) div 153"
  defines "m \<equiv> (if mp < 10 then mp + 2 else mp - 10)"
  shows "civil_from_days d = (if m \<le> 1 then y + 1 else y, m, doy - (153 * mp + 2) div 5 + 1)"
  unfolding civil_from_days_def Let_def m_def mp_def y_def doy_def a_def dq_def dc_def c_def
    doe_def z_def
  by (rule refl)

lemma MakeDay_in_year:
  fixes year m dt :: int
  assumes "0 \<le> m" "m \<le> 11"
  defines "y \<equiv> (if m \<le> 1 then year - 1 else year)"
  defines "mp \<equiv> (if m \<le> 1 then m + 10 else m - 2)"
  shows "MakeDay year m dt =
     y div 400 * 146097
     + (y mod 400 * 365 + y mod 400 div 4 - y mod 400 div 100 + (153 * mp + 2) div 5)
     - 719468 + dt - 1"
proof -
  have md: "m div 12 = 0" "m mod 12 = m"
    using assms(1,2) by simp_all
  show ?thesis
    unfolding MakeDay_def Let_def md add_0_right y_def mp_def by (rule refl)
qed

lemma MakeDay_civil_from_days:
  "MakeDay (fst (civil_from_days d)) (fst (snd (civil_from_days d)))
     (snd (snd (civil_from_days d))) = d"
proof -
  define z where "z = d + 719468"
  define era where "era = z div 146097"
  define doe where "doe = z mod 146097"
  define c where "c = min 3 (doe div 36524)"
  define dc where "dc = doe - c * 36524"
  define q where "q = dc div 1461"
  define dq where "dq = dc mod 1461"
  define a where "a = min 3 (dq div 365)"
  define doy where "doy = dq - a * 365"
  define yoe where "yoe = c * 100 + q * 4 + a"
  define y where "y = era * 400 + c * 100 + q * 4 + a"
  define mp where "mp = (5 * doy + 2) div 153"
  define dt where "dt = doy - (153 * mp + 2) div 5 + 1"
  define m where "m = (if mp < 10 then mp + 2 else mp - 10)"
  define year where "year = (if m \<le> 1 then y + 1 else y)"
  have cd: "civil_from_days d = (year, m, dt)"
    unfolding year_def m_def dt_def mp_def y_def doy_def a_def dq_def q_def dc_def c_def
      doe_def era_def z_def
    by (rule civil_from_days_unfold)
  have ze: "z = 146097 * era + doe"
    unfolding era_def doe_def by (rule mult_div_mod_eq [symmetric])
  have "0 \<le> doe" "doe < 146097"
    unfolding doe_def by (rule pos_mod_sign, simp) (rule pos_mod_bound, simp)
  then have doe: "0 \<le> doe" "doe \<le> 146096" by linarith+
  from century_bounds [OF doe]
  have cb: "0 \<le> c" "c \<le> 3" "0 \<le> dc" "dc \<le> 36524"
    unfolding c_def dc_def by blast+
  have dce: "dc = 1461 * q + dq"
    unfolding q_def dq_def by (rule mult_div_mod_eq [symmetric])
  have "0 \<le> dq" "dq < 1461"
    unfolding dq_def by (rule pos_mod_sign, simp) (rule pos_mod_bound, simp)
  then have dq: "0 \<le> dq" "dq \<le> 1460" by linarith+
  have qb: "0 \<le> q" "q \<le> 24" using dce dq cb by linarith+
  from doy_bounds [OF dq]
  have doy: "0 \<le> doy" "doy \<le> 365"
    unfolding doy_def a_def by blast+
  have "0 \<le> dq div 365"
    using dq(1) pos_imp_zdiv_nonneg_iff [of 365 dq] by simp
  then have ab: "0 \<le> a" "a \<le> 3"
    unfolding a_def by simp_all
  note ye = year_of_era [OF cb(1,2) qb ab, folded yoe_def]
  from month_day_of_doy [OF doy]
  have mpb: "0 \<le> mp" "mp \<le> 11"
    unfolding mp_def by blast+
  have mb: "0 \<le> m" "m \<le> 11"
    unfolding m_def using mpb by auto
  have y': "(if m \<le> 1 then year - 1 else year) = y"
    unfolding year_def by simp
  have mp': "(if m \<le> 1 then m + 10 else m - 2) = mp"
    unfolding m_def using mpb by auto
  have yy: "y = 400 * era + yoe"
    unfolding y_def yoe_def by simp
  have yb: "0 \<le> yoe" "yoe < 400"
    using ye(3,4) by linarith+
  have yd: "y div 400 = era" "y mod 400 = yoe"
    by (rule int_div_pos_eq [OF yy yb]) (rule int_mod_pos_eq [OF yy yb])
  have "MakeDay year m dt
      = era * 146097 + (yoe * 365 + yoe div 4 - yoe div 100 + (153 * mp + 2) div 5)
        - 719468 + dt - 1"
    unfolding MakeDay_in_year [OF mb] y' mp' yd by (rule refl)
  also have "\<dots> = era * 146097 + (yoe * 365 + (c * 25 + q) - c + doy) - 719468"
    unfolding ye(1,2) dt_def by simp
  also have "\<dots> = era * 146097 + doe - 719468"
  proof -
    have e: "yoe * 365 = c * 36500 + q * 1460 + a * 365"
      unfolding yoe_def by (simp add: algebra_simps)
    have "dc = 1461 * q + (doy + a * 365)"
      using dce unfolding doy_def by simp
    then have "doe = c * 36524 + 1461 * q + doy + a * 365"
      unfolding dc_def by linarith
    then show ?thesis
      unfolding e by linarith
  qed
  also have "\<dots> = d"
    using ze unfolding z_def by linarith
  finally show ?thesis
    unfolding cd by simp
qed

lemma local_date_bounds:
  "0 \<le> getMonth tz t \<and> getMonth tz t \<le> 11 \<and> 1 \<le> getDate tz t \<and> getDate tz t \<le> 31"
  unfolding getMonth_def getDate_def MonthFromTime_def DateFromTime_def
  by (rule civil_from_days_bounds)

lemma parseISODate_shape:
  assumes "digits_value [y1, y2, y3, y4] = Some y" "digits_value [m1, m2] = Some m"
    "digits_value [d1, d2] = Some d" "1 \<le> m" "m \<le> 12" "1 \<le> d" "d \<le> 31"
  shows "parseISODate ([y1, y2, y3, y4] @ ''-'' @ [m1, m2] @ ''-'' @ [d1, d2])
       = Some (MakeDate (MakeDay (int y) (int m - 1) (int d)) 0)"
  using assms by (simp add: parseISODate_def)

lemma parseISODate_format:
  assumes "1 \<le> getFullYear tz t" "getFullYear tz t \<le> 9999"
  shows "parseISODate (format_yyyy_MM_dd tz t)
       = Some (MakeDate (MakeDay (getFullYear tz t) (getMonth tz t) (getDate tz t)) 0)"
proof -
  define y where "y = nat (getFullYear tz t)"
  define m where "m = nat (getMonth tz t + 1)"
  define d where "d = nat (getDate tz t)"
  from local_date_bounds [of tz t]
  have b: "0 \<le> getMonth tz t" "getMonth tz t \<le> 11" "1 \<le> getDate tz t" "getDate tz t \<le> 31"
    by blast+
  have iy: "int y = getFullYear tz t" and im: "int m - 1 = getMonth tz t"
    and idt: "int d = getDate tz t"
    unfolding y_def m_def d_def using assms b by linarith+
  have ry: "y < 10000" and rm: "1 \<le> m" "m \<le> 12" "m < 100" and rd: "1 \<le> d" "d \<le> 31" "d < 100"
    unfolding y_def m_def d_def using assms b by linarith+
  have ty: "token_yyyy tz t = [digit_char (y div 1000), digit_char (y div 100),
      digit_char (y div 10), digit_char y]"
    using assms by (simp add: token_yyyy_def Let_def addLeadingZeros_4 y_def)
  have tm: "token_MM tz t = [digit_char (m div 10), digit_char m]"
    using b by (simp add: token_MM_def addLeadingZeros_2 m_def)
  have td: "token_dd tz t = [digit_char (d div 10), digit_char d]"
    using b by (simp add: token_dd_def addLeadingZeros_2 d_def)
  have "parseISODate (format_yyyy_MM_dd tz t)
      = Some (MakeDate (MakeDay (int y) (int m - 1) (int d)) 0)"
    unfolding format_yyyy_MM_dd_def ty tm td
    by (rule parseISODate_shape [OF digits_value_4 [OF ry] digits_value_2 [OF rm(3)]
          digits_value_2 [OF rd(3)] rm(1,2) rd(1,2)])
  then show ?thesis
    unfolding iy im idt .
qed

lemma chart_date_format:
  assumes "1 \<le> getFullYear tz t" "getFullYear tz t \<le> 9999"
  shows "\<exists>label. chart_date tz (format_yyyy_MM_dd tz t) = Inr label"
  by (simp add: chart_date_def parseISODate_format [OF assms])

lemma MakeDay_local_date:
  "MakeDay (getFullYear tz t) (getMonth tz t) (getDate tz t) = Day (LocalTime tz t)"
  unfolding getFullYear_def getMonth_def getDate_def YearFromTime_def MonthFromTime_def
    DateFromTime_def
  by (rule MakeDay_civil_from_days)

lemma parseISODate_day_key:
  assumes "1 \<le> getFullYear tz t" "getFullYear tz t \<le> 9999"
  shows "parseISODate (format_yyyy_MM_dd tz t) = Some (MakeDate (Day (LocalTime tz t)) 0)"
  using parseISODate_format [OF assms] unfolding MakeDay_local_date .

lemma local_date_same_day:
  assumes "Day (LocalTime tz t) = Day (LocalTime tz t')"
  shows "getFullYear tz t = getFullYear tz t'" "getMonth tz t = getMonth tz t'"
    "getDate tz t = getDate tz t'"
  unfolding getFullYear_def getMonth_def getDate_def YearFromTime_def MonthFromTime_def
    DateFromTime_def assms
  by (rule refl)+

lemma format_same_day:
  assumes "Day (LocalTime tz t) = Day (LocalTime tz t')"
  shows "format_yyyy_MM_dd tz t = format_yyyy_MM_dd tz t'"
  unfolding format_yyyy_MM_dd_def token_yyyy_def token_MM_def token_dd_def
    local_date_same_day [OF assms]
  by (rule refl)

lemma day_key_iff_local_day:
  assumes "1 \<le> getFullYear tz t" "getFullYear tz t \<le> 9999"
    and "1 \<le> getFullYear tz t'" "getFullYear tz t' \<le> 9999"
  shows "(format_yyyy_MM_dd tz t = format_yyyy_MM_dd tz t')
       = (Day (LocalTime tz t) = Day (LocalTime tz t'))"
proof
  assume "format_yyyy_MM_dd tz t = format_yyyy_MM_dd tz t'"
  then have "parseISODate (format_yyyy_MM_dd tz t) = parseISODate (format_yyyy_MM_dd tz t')"
    by simp
  then have "MakeDate (Day (LocalTime tz t)) 0 = MakeDate (Day (LocalTime tz t')) 0"
    unfolding parseISODate_day_key [OF assms(1,2)] parseISODate_day_key [OF assms(3,4)]
    by simp
  then show "Day (LocalTime tz t) = Day (LocalTime tz t')"
    by (simp add: MakeDate_def msPerDay_def)
next
  assume "Day (LocalTime tz t) = Day (LocalTime tz t')"
  then show "format_yyyy_MM_dd tz t = format_yyyy_MM_dd tz t'"
    by (rule format_same_day)
qed

lemma chart_date_day_key:
  assumes "1 \<le> getFullYear tz t" "getFullYear tz t \<le> 9999"
  shows "chart_date tz (format_yyyy_MM_dd tz t)
       = Inr (format_dd_MM tz (MakeDate (Day (LocalTime tz t)) 0))"
  by (simp add: chart_date_def parseISODate_day_key [OF assms])

section \<open>The history chart\<close>

lemma push_day_keys:
  "map fst (push_day k t h g) = (if k \<in> fst ` set g then map fst g else map fst g @ [k])"
  by (induction k t h g rule: push_day.induct) auto

lemma push_day_lookup:
  "map_of (push_day k t h g) k' =
     (if k' = k
      then Some (case map_of g k of None \<Rightarrow> ([t], [h])
                 | Some (temps, humids) \<Rightarrow> (temps @ [t], humids @ [h]))
      else map_of g k')"
  by (induction k t h g rule: push_day.induct) auto

lemma groupedByDay_snoc:
  "groupedByDay tz (rs @ [r]) =
     push_day (format_yyyy_MM_dd tz (timestamp r)) (temperature r) (humidity r)
       (groupedByDay tz rs)"
  by (simp add: groupedByDay_def)

lemma groupedByDay_keys:
  "distinct (map fst (groupedByDay tz rs)) \<and>
   set (map fst (groupedByDay tz rs)) = (\<lambda>r. format_yyyy_MM_dd tz (timestamp r)) ` set rs"
proof (induction rs rule: rev_induct)
  case Nil
  then show ?case by (simp add: groupedByDay_def)
next
  case (snoc r rs)
  then show ?case
    by (auto simp: groupedByDay_snoc push_day_keys)
qed

lemma groupedByDay_lookup:
  "map_of (groupedByDay tz rs) k =
     (if k \<in> (\<lambda>r. format_yyyy_MM_dd tz (timestamp r)) ` set rs
      then Some (map temperature (readings_of_day tz rs k), map humidity (readings_of_day tz rs k))
      else None)"
proof (induction rs rule: rev_induct)
  case Nil
  then show ?case by (simp add: groupedByDay_def)
next
  case (snoc r rs)
  show ?case
  proof (cases "k = format_yyyy_MM_dd tz (timestamp r)")
    case True
    show ?thesis
    proof (cases "k \<in> (\<lambda>r. format_yyyy_MM_dd tz (timestamp r)) ` set rs")
      case in_rs: True
      with True snoc show ?thesis
        by (simp add: groupedByDay_snoc push_day_lookup readings_of_day_def)
    next
      case not_in_rs: False
      then have "filter (\<lambda>x. format_yyyy_MM_dd tz (timestamp x) = k) rs = []"
        by (auto simp: filter_empty_conv)
      with True not_in_rs snoc show ?thesis
        by (simp add: groupedByDay_snoc push_day_lookup readings_of_day_def)
    qed
  next
    case False
    then show ?thesis
      using snoc by (auto simp: groupedByDay_snoc push_day_lookup readings_of_day_def)
  qed
qed

lemma groupedByDay_entry:
  assumes "(k, temps, humids) \<in> set (groupedByDay tz rs)"
  shows "temps = map temperature (readings_of_day tz rs k)
       \<and> humids = map humidity (readings_of_day tz rs k)
       \<and> k \<in> (\<lambda>r. format_yyyy_MM_dd tz (timestamp r)) ` set rs"
proof -
  from groupedByDay_keys [of tz rs] have "distinct (map fst (groupedByDay tz rs))" by blast
  with assms have "map_of (groupedByDay tz rs) k = Some (temps, humids)" by simp
  then show ?thesis
    by (auto simp: groupedByDay_lookup split: if_splits)
qed

lemma chart_points_map:
  "chart_points tz g = Inr ps \<Longrightarrow> map Inr ps = map (chart_point tz) g"
  by (induction g arbitrary: ps) (auto split: sum.splits)

lemma chart_points_total:
  "\<forall>e\<in>set g. \<exists>label. chart_date tz (fst e) = Inr label \<Longrightarrow> \<exists>ps. chart_points tz g = Inr ps"
  by (induction g) (auto simp: chart_point_def split: sum.splits prod.splits)

lemma chart_point_fields:
  "chart_point tz (k, temps, humids) = Inr p \<Longrightarrow>
     Inr (date p) = chart_date tz k \<and> Temperatura p = toFixed1 (average temps)
     \<and> Umidade p = toFixed1 (average humids)"
  by (auto simp: chart_point_def split: sum.splits)

lemma chart_points_observed:
  assumes "chart_points tz (groupedByDay tz rs) = Inr ps"
  shows "map (\<lambda>p. (Inr (date p) :: not_modelled + string, Temperatura p, Umidade p)) ps
       = map (\<lambda>k. (chart_date tz k, toFixed1 (average (map temperature (readings_of_day tz rs k))),
                    toFixed1 (average (map humidity (readings_of_day tz rs k)))))
           (map fst (groupedByDay tz rs))"
proof -
  let ?g = "groupedByDay tz rs"
  let ?obs = "\<lambda>p. (Inr (date p) :: not_modelled + string, Temperatura p, Umidade p)"
  let ?G = "\<lambda>k. (chart_date tz k, toFixed1 (average (map temperature (readings_of_day tz rs k))),
                    toFixed1 (average (map humidity (readings_of_day tz rs k))))"
  have len: "length ps = length ?g"
    using chart_points_map [OF assms] by (metis length_map)
  have "?obs (ps ! i) = ?G (fst (?g ! i))" if i: "i < length ?g" for i
  proof -
    obtain k temps humids where e: "?g ! i = (k, temps, humids)"
      by (cases "?g ! i") auto
    from i e have mem: "(k, temps, humids) \<in> set ?g"
      by (metis nth_mem)
    have "Inr (ps ! i) = chart_point tz (?g ! i)"
      using chart_points_map [OF assms] i len by (metis nth_map)
    then have "chart_point tz (k, temps, humids) = Inr (ps ! i)"
      by (simp add: e)
    from chart_point_fields [OF this] groupedByDay_entry [OF mem]
    show ?thesis
      by (simp add: e)
  qed
  then show ?thesis
    by (intro nth_equalityI) (simp_all add: len)
qed

lemma keys_two_days:
  "format_yyyy_MM_dd tz_brt 1710068400000 = ''2024-03-10''"
  "format_yyyy_MM_dd tz_brt 1710090000000 = ''2024-03-10''"
  "format_yyyy_MM_dd tz_brt 1710118800000 = ''2024-03-10''"
  "format_yyyy_MM_dd tz_brt 1710158400000 = ''2024-03-11''"
  by code_simp+

lemma years_two_days:
  "getFullYear tz_brt 1710068400000 = 2024"
  "getFullYear tz_brt 1710090000000 = 2024"
  "getFullYear tz_brt 1710118800000 = 2024"
  "getFullYear tz_brt 1710158400000 = 2024"
  by code_simp+

lemma labels_two_days:
  "chart_date tz_brt ''2024-03-10'' = Inr ''09/03''"
  "chart_date tz_brt ''2024-03-11'' = Inr ''10/03''"
  by code_simp+

lemma means_two_days:
  "toFixed1 (average [20, 22, 24]) = 22" "toFixed1 (average [18]) = 18"
  "toFixed1 (average [50, 52, 57]) = 53" "toFixed1 (average [61]) = 61"
  by code_simp+

lemma grouped_two_days:
  "groupedByDay tz_brt history_two_days =
     [(''2024-03-10'', [20, 22, 24], [50, 52, 57]), (''2024-03-11'', [18], [61])]"
  by (simp add: groupedByDay_def history_two_days_def mk_reading_def keys_two_days)

lemma labels_sorted: "(''09/03'' :: string) \<le> ''10/03''" "\<not> (''31/01'' :: string) \<le> ''01/02''"
  by code_simp+

lemma chartData_two_days:
  "chartData tz_brt history_two_days =
     Inr [\<lparr>date = ''09/03'', Temperatura = 22, Umidade = 53\<rparr>,
          \<lparr>date = ''10/03'', Temperatura = 18, Umidade = 61\<rparr>]"
proof -
  have ne: "history_two_days \<noteq> []" by (simp add: history_two_days_def)
  have pts: "chart_points tz_brt (groupedByDay tz_brt history_two_days) =
     Inr [\<lparr>date = ''09/03'', Temperatura = 22, Umidade = 53\<rparr>,
          \<lparr>date = ''10/03'', Temperatura = 18, Umidade = 61\<rparr>]"
    unfolding grouped_two_days
    by (simp add: chart_point_def labels_two_days means_two_days)
  show ?thesis
    unfolding chartData_def pts using ne labels_sorted(1) by simp
qed

lemma keys_month_end:
  "format_yyyy_MM_dd 0 1706702400000 = ''2024-01-31''"
  "format_yyyy_MM_dd 0 1706788800000 = ''2024-02-01''"
  by code_simp+

lemma labels_month_end:
  "chart_date 0 ''2024-01-31'' = Inr ''31/01''"
  "chart_date 0 ''2024-02-01'' = Inr ''01/02''"
  by code_simp+

lemma means_month_end:
  "toFixed1 (average [20]) = 20" "toFixed1 (average [22]) = 22"
  "toFixed1 (average [50]) = 50" "toFixed1 (average [52]) = 52"
  by code_simp+

lemma chartData_month_end:
  "chartData 0 history_month_end =
     Inr [\<lparr>date = ''01/02'', Temperatura = 22, Umidade = 52\<rparr>,
          \<lparr>date = ''31/01'', Temperatura = 20, Umidade = 50\<rparr>]"
proof -
  have ne: "history_month_end \<noteq> []" by (simp add: history_month_end_def)
  have g: "groupedByDay 0 history_month_end =
     [(''2024-01-31'', [20], [50]), (''2024-02-01'', [22], [52])]"
    by (simp add: groupedByDay_def history_month_end_def mk_reading_def keys_month_end)
  have pts: "chart_points 0 (groupedByDay 0 history_month_end) =
     Inr [\<lparr>date = ''31/01'', Temperatura = 20, Umidade = 50\<rparr>,
          \<lparr>date = ''01/02'', Temperatura = 22, Umidade = 52\<rparr>]"
    unfolding g
    by (simp add: chart_point_def labels_month_end means_month_end)
  show ?thesis
    unfolding chartData_def pts using ne labels_sorted(2) by simp
qed

lemma chartData_points:
  assumes "\<forall>r\<in>set records. 1 \<le> getFullYear tz (timestamp r) \<and> getFullYear tz (timestamp r) \<le> 9999"
  shows "\<exists>ps. chart_points tz (groupedByDay tz records) = Inr ps
      \<and> chartData tz records = Inr (sort_key date ps)"
proof -
  have "\<forall>e\<in>set (groupedByDay tz records). \<exists>label. chart_date tz (fst e) = Inr label"
  proof
    fix e assume e: "e \<in> set (groupedByDay tz records)"
    obtain k temps humids where "e = (k, temps, humids)" by (cases e) auto
    with e groupedByDay_entry [of k temps humids tz records]
    obtain r where "r \<in> set records" "fst e = format_yyyy_MM_dd tz (timestamp r)"
      by auto
    with assms chart_date_format [of tz "timestamp r"]
    show "\<exists>label. chart_date tz (fst e) = Inr label" by auto
  qed
  from chart_points_total [OF this]
  obtain ps where ps: "chart_points tz (groupedByDay tz records) = Inr ps" by blast
  have "chartData tz records = Inr (sort_key date ps)"
  proof (cases "records = []")
    case True
    with ps have "ps = []" by (simp add: groupedByDay_def)
    with True show ?thesis by (simp add: chartData_def)
  next
    case False
    with ps show ?thesis by (simp add: chartData_def)
  qed
  with ps show ?thesis by blast
qed

text \<open>
  What \<^verbatim>\<open>chartData\<close> does in general, for readings whose local years lie between 1 and
  9999: two readings have the same key exactly when they fall on the same local day; the
  result has one point for each key that occurs, with the label the code computes for the
  key and the rounded double means of that day's temperatures and humidities.
\<close>

lemma chartData_one_point_per_day:
  assumes "\<forall>r\<in>set records. 1 \<le> getFullYear tz (timestamp r) \<and> getFullYear tz (timestamp r) \<le> 9999"
  shows "\<exists>points. chartData tz records = Inr points
     \<and> length points = card ((\<lambda>r. format_yyyy_MM_dd tz (timestamp r)) ` set records)
     \<and> mset (map (\<lambda>p. (Inr (date p) :: not_modelled + string, Temperatura p, Umidade p)) points)
         = image_mset (\<lambda>day. (chart_date tz day,
                                toFixed1 (average (map temperature (readings_of_day tz records day))),
                                toFixed1 (average (map humidity (readings_of_day tz records day)))))
             (mset_set ((\<lambda>r. format_yyyy_MM_dd tz (timestamp r)) ` set records))
     \<and> (\<forall>r\<in>set records. \<forall>r'\<in>set records.
           (format_yyyy_MM_dd tz (timestamp r) = format_yyyy_MM_dd tz (timestamp r'))
           = (Day (LocalTime tz (timestamp r)) = Day (LocalTime tz (timestamp r'))))"
proof -
  let ?keys = "(\<lambda>r. format_yyyy_MM_dd tz (timestamp r)) ` set records"
  let ?obs = "\<lambda>p. (Inr (date p) :: not_modelled + string, Temperatura p, Umidade p)"
  let ?G = "\<lambda>day. (chart_date tz day,
                    toFixed1 (average (map temperature (readings_of_day tz records day))),
                    toFixed1 (average (map humidity (readings_of_day tz records day))))"
  let ?g = "groupedByDay tz records"
  from chartData_points [OF assms] obtain ps
    where ps: "chart_points tz ?g = Inr ps"
      and cd: "chartData tz records = Inr (sort_key date ps)"
    by blast
  from groupedByDay_keys [of tz records]
  have d: "distinct (map fst ?g)" and k: "set (map fst ?g) = ?keys"
    by blast+
  note o = chart_points_observed [OF ps]
  have "length ps = length (map ?obs ps)" by simp
  also have "\<dots> = length (map fst ?g)" unfolding o by simp
  also have "\<dots> = card ?keys" using distinct_card [OF d] k by simp
  finally have len: "length (sort_key date ps) = card ?keys" by simp
  have "mset (map ?obs (sort_key date ps)) = image_mset ?obs (mset (sort_key date ps))"
    by simp
  also have "\<dots> = mset (map ?obs ps)" by simp
  also have "\<dots> = image_mset ?G (mset (map fst ?g))" unfolding o by (simp only: mset_map)
  also have "mset (map fst ?g) = mset_set ?keys"
    using mset_set_set [OF d] k by simp
  finally have ms: "mset (map ?obs (sort_key date ps)) = image_mset ?G (mset_set ?keys)" .
  have days: "\<forall>r\<in>set records. \<forall>r'\<in>set records.
           (format_yyyy_MM_dd tz (timestamp r) = format_yyyy_MM_dd tz (timestamp r'))
           = (Day (LocalTime tz (timestamp r)) = Day (LocalTime tz (timestamp r')))"
  proof (intro ballI)
    fix r r' assume "r \<in> set records" "r' \<in> set records"
    with assms have "1 \<le> getFullYear tz (timestamp r)" "getFullYear tz (timestamp r) \<le> 9999"
      "1 \<le> getFullYear tz (timestamp r')" "getFullYear tz (timestamp r') \<le> 9999"
      by blast+
    then show "(format_yyyy_MM_dd tz (timestamp r) = format_yyyy_MM_dd tz (timestamp r'))
           = (Day (LocalTime tz (timestamp r)) = Day (LocalTime tz (timestamp r')))"
      by (rule day_key_iff_local_day)
  qed
  from cd len ms days show ?thesis
    by (intro exI [of _ "sort_key date ps"] conjI)
qed

text \<open>
  The means are those of double arithmetic. Two readings of one day with the temperatures
  written 22.1 and 22.2: the exact mean of the two stored doubles lies above 22.15, yet the
  chart shows 22.1, since the rounded sum and quotient fall just below 22.15.
\<close>

lemma double_means_tenths:
  "double_22_1 = 3110298492652749 / 140737488355328"
  "double_22_2 = 6248744482976563 / 281474976710656"
  "average [double_22_1, double_22_2] = 3117335367070515 / 140737488355328"
  "toFixed1 (average [double_22_1, double_22_2]) = double_22_1"
  "toFixed1 (average [double_55_3, double_55_4]) = double_55_3"
  "443 / 20 < (double_22_1 + double_22_2) / 2"
  by code_simp+

lemma chartData_tenths:
  "chartData tz_brt history_tenths =
     Inr [\<lparr>date = ''09/03'', Temperatura = double_22_1, Umidade = double_55_3\<rparr>]"
proof -
  have ne: "history_tenths \<noteq> []" by (simp add: history_tenths_def)
  have g: "groupedByDay tz_brt history_tenths =
     [(''2024-03-10'', [double_22_1, double_22_2], [double_55_3, double_55_4])]"
    by (simp add: groupedByDay_def history_tenths_def mk_reading_def keys_two_days)
  have pts: "chart_points tz_brt (groupedByDay tz_brt history_tenths) =
     Inr [\<lparr>date = ''09/03'', Temperatura = double_22_1, Umidade = double_55_3\<rparr>]"
    unfolding g
    by (simp add: chart_point_def labels_two_days double_means_tenths(4,5))
  show ?thesis
    unfolding chartData_def pts using ne by simp
qed

lemma labels_of_days:
  "format_dd_MM tz_brt 1710068400000 = ''10/03''"
  "format_dd_MM tz_brt 1710090000000 = ''10/03''"
  "format_dd_MM tz_brt 1710118800000 = ''10/03''"
  "format_dd_MM tz_brt 1710158400000 = ''11/03''"
  by code_simp+

text \<open>
  C4, at the failing input. On a device three hours behind UTC, three readings on
  10 March 2024 with temperatures 20, 22 and 24 and one reading on 11 March with
  temperature 18. There are two points with the means 22 and 18, but the point of 10 March
  is labelled 09/03 and the point of 11 March is labelled 10/03: under the label of
  10 March the chart shows 18.
\<close>

theorem C4_day_label_one_day_early:
  "map (\<lambda>r. format_yyyy_MM_dd tz_brt (timestamp r)) history_two_days
     = [''2024-03-10'', ''2024-03-10'', ''2024-03-10'', ''2024-03-11'']
   \<and> map (\<lambda>r. format_dd_MM tz_brt (timestamp r)) history_two_days
     = [''10/03'', ''10/03'', ''10/03'', ''11/03'']
   \<and> map temperature history_two_days = [20, 22, 24, 18]
   \<and> chartData tz_brt history_two_days =
       Inr [\<lparr>date = ''09/03'', Temperatura = 22, Umidade = 53\<rparr>,
            \<lparr>date = ''10/03'', Temperatura = 18, Umidade = 61\<rparr>]"
  using chartData_two_days
  by (simp add: history_two_days_def mk_reading_def keys_two_days labels_of_days)

text \<open>
  C6, at the failing input. On a device at UTC, one reading at noon of 31 January 2024 and
  one at noon of 1 February 2024: the points are sorted by their labels as text, and
  01/02 comes before 31/01, so the point of the later day precedes the point of the earlier
  day.
\<close>

theorem C6_month_boundary_out_of_order:
  "map timestamp history_month_end = [1706702400000, 1706788800000]
   \<and> map (format_yyyy_MM_dd 0) [1706702400000, 1706788800000] = [''2024-01-31'', ''2024-02-01'']
   \<and> chartData 0 history_month_end =
       Inr [\<lparr>date = ''01/02'', Temperatura = 22, Umidade = 52\<rparr>,
            \<lparr>date = ''31/01'', Temperatura = 20, Umidade = 50\<rparr>]"
  using chartData_month_end keys_month_end
  by (simp add: history_month_end_def mk_reading_def)

section \<open>The CSV export\<close>

lemma collapse_replace_quotes: "collapse_quotes (replace_quotes s) = s"
proof (induction s)
  case Nil
  then show ?case by (simp add: replace_quotes_def)
next
  case (Cons c s)
  have r: "replace_quotes (c # s) = (if c = dquote then [dquote, dquote] else [c]) @ replace_quotes s"
    by (simp add: replace_quotes_def)
  show ?case
  proof (cases "c = dquote")
    case True
    show ?thesis
      unfolding r using True Cons by simp
  next
    case False
    show ?thesis
      unfolding r using False Cons by (cases "replace_quotes s") simp_all
  qed
qed

lemma count_replace_quotes:
  "count_list (replace_quotes s) dquote = 2 * count_list s dquote"
  by (induction s) (simp_all add: replace_quotes_def)

lemma csv_row_layout:
  "csv_row number_text tz r =
     format_yyyy_MM_dd_HH_mm_ss tz (timestamp r) @ '','' @ turno_text (turno r) @ '','' @
     number_text (temperature r) @ '','' @ boolean_text (is_temp_ok r) @ '','' @
     number_text (humidity r) @ '','' @ boolean_text (is_humidity_ok r) @ '','' @
     [dquote] @ replace_quotes (observation r) @ [dquote]"
  by (simp add: csv_row_def)

lemma sort_key_permutation:
  assumes "mset xs = mset ys" "distinct (map f xs)"
  shows "sort_key f xs = sort_key f ys"
proof -
  have inj: "inj_on f (set xs)" using assms(2) by (simp add: distinct_map)
  have st: "set ys = set xs"
    using assms(1) by (metis mset_eq_setD)
  have "mset (map f xs) = mset (map f ys)"
    using assms(1) by simp
  then have dy: "distinct (map f ys)"
    using assms(2) by (metis mset_eq_imp_distinct_iff)
  have "map f (sort_key f xs) = map f (sort_key f ys)"
  proof (rule sorted_distinct_set_unique)
    show "sorted (map f (sort_key f xs))" by (rule sorted_sort_key)
    show "sorted (map f (sort_key f ys))" by (rule sorted_sort_key)
    show "distinct (map f (sort_key f xs))"
      using assms(2) by (simp add: distinct_map)
    show "distinct (map f (sort_key f ys))"
      using dy by (simp add: distinct_map)
    show "set (map f (sort_key f xs)) = set (map f (sort_key f ys))"
      by (simp add: st)
  qed
  moreover have "inj_on f (set (sort_key f xs) \<union> set (sort_key f ys))"
    using inj by (simp add: st)
  ultimately show ?thesis
    by (simp add: inj_on_map_eq_map)
qed

lemma export_times:
  "format_yyyy_MM_dd_HH_mm_ss tz_brt 1710068400000 = ''2024-03-10 08:00:00''"
  "format_yyyy_MM_dd_HH_mm_ss tz_brt 1710090000000 = ''2024-03-10 14:00:00''"
  by code_simp+

lemma export_header:
  "join '','' headers =
     ''Hor'' @ [CHR 0xE1] @ ''rio,Turno,Temperatura ('' @ [CHR 0xB0] @
     ''C),Temp OK,Umidade (%),Umidade OK,Observa'' @ [CHR 0xE7, CHR 0xF5] @ ''es''"
  by (simp add: headers_def)

lemma export_rows_example:
  "csv_row number_text_example tz_brt csv_r1 =
     ''2024-03-10 08:00:00,Manh'' @ [CHR 0xE3] @ '',22,true,55,true,'' @
     [dquote] @ ''He said '' @ [dquote, dquote] @ ''hi'' @ [dquote, dquote, dquote]"
  "csv_row number_text_example tz_brt csv_r2 =
     ''2024-03-10 14:00:00,Tarde,30.5,false,40,true,'' @ [dquote, dquote]"
  by (simp_all add: csv_row_layout csv_r1_def csv_r2_def export_times turno_text_def
      boolean_text_def number_text_example_def replace_quotes_def dquote_def)

lemma export_sorted_example: "sort_key timestamp [csv_r1, csv_r2] = [csv_r1, csv_r2]"
  by (simp add: csv_r1_def csv_r2_def)

text \<open>
  C5. The lines of the export are the header followed by one row for each reading, the
  readings taken in ascending order of their timestamps whatever order they came in (the
  same lines for every order of readings with distinct timestamps); a row is the seven
  fields, in the fixed order, joined by commas, only the observation between quotes, and in
  it every quote doubled, so that reading the field back gives the observation.
\<close>

theorem C5_csv_export:
  "csv_lines number_text tz records
     = join '','' headers # map (csv_row number_text tz) (sort_key timestamp records)
   \<and> length (csv_lines number_text tz records) = 1 + length records
   \<and> mset (sort_key timestamp records) = mset records
   \<and> sorted (map timestamp (sort_key timestamp records))
   \<and> (mset records' = mset records \<and> distinct (map timestamp records)
        \<longrightarrow> csv_lines number_text tz records' = csv_lines number_text tz records)
   \<and> csv_row number_text tz r =
        format_yyyy_MM_dd_HH_mm_ss tz (timestamp r) @ '','' @ turno_text (turno r) @ '','' @
        number_text (temperature r) @ '','' @ boolean_text (is_temp_ok r) @ '','' @
        number_text (humidity r) @ '','' @ boolean_text (is_humidity_ok r) @ '','' @
        [dquote] @ replace_quotes (observation r) @ [dquote]
   \<and> collapse_quotes (replace_quotes s) = s
   \<and> count_list (replace_quotes s) dquote = 2 * count_list s dquote"
proof -
  have perm: "mset records' = mset records \<and> distinct (map timestamp records)
        \<longrightarrow> csv_lines number_text tz records' = csv_lines number_text tz records"
  proof
    assume a: "mset records' = mset records \<and> distinct (map timestamp records)"
    then have "sort_key timestamp records = sort_key timestamp records'"
      by (intro sort_key_permutation) simp_all
    then show "csv_lines number_text tz records' = csv_lines number_text tz records"
      by (simp add: csv_lines_def csv_rows_def)
  qed
  have lines: "csv_lines number_text tz records
     = join '','' headers # map (csv_row number_text tz) (sort_key timestamp records)"
    by (simp add: csv_lines_def csv_rows_def)
  have len: "length (csv_lines number_text tz records) = 1 + length records"
    by (simp add: lines)
  have ms: "mset (sort_key timestamp records) = mset records"
    by simp
  have srt: "sorted (map timestamp (sort_key timestamp records))"
    by (rule sorted_sort_key)
  from lines len ms srt perm csv_row_layout collapse_replace_quotes count_replace_quotes
  show ?thesis by (intro conjI)
qed

theorem C5_csv_export_witness:
  "mset [csv_r2, csv_r1] = mset [csv_r1, csv_r2]
   \<and> distinct (map timestamp [csv_r1, csv_r2])
   \<and> csv_lines number_text_example tz_brt [csv_r1, csv_r2] =
       [join '','' headers,
        ''2024-03-10 08:00:00,Manh'' @ [CHR 0xE3] @ '',22,true,55,true,'' @
          [dquote] @ ''He said '' @ [dquote, dquote] @ ''hi'' @ [dquote, dquote, dquote],
        ''2024-03-10 14:00:00,Tarde,30.5,false,40,true,'' @ [dquote, dquote]]
   \<and> csv_lines number_text_example tz_brt [csv_r2, csv_r1]
       = csv_lines number_text_example tz_brt [csv_r1, csv_r2]
   \<and> observation csv_r1 = ''He said '' @ [dquote] @ ''hi'' @ [dquote]"
proof -
  have m: "mset [csv_r2, csv_r1] = mset [csv_r1, csv_r2]"
    by (simp add: add.commute)
  have d: "distinct (map timestamp [csv_r1, csv_r2])"
    by (simp add: csv_r1_def csv_r2_def)
  have o: "observation csv_r1 = ''He said '' @ [dquote] @ ''hi'' @ [dquote]"
    by (simp add: csv_r1_def)
  note t = C5_csv_export [where number_text = number_text_example and tz = tz_brt
      and records = "[csv_r1, csv_r2]" and records' = "[csv_r2, csv_r1]"]
  from t have l: "csv_lines number_text_example tz_brt [csv_r1, csv_r2]
     = join '','' headers # map (csv_row number_text_example tz_brt)
         (sort_key timestamp [csv_r1, csv_r2])"
    by blast
  have l': "csv_lines number_text_example tz_brt [csv_r1, csv_r2] =
       [join '','' headers,
        ''2024-03-10 08:00:00,Manh'' @ [CHR 0xE3] @ '',22,true,55,true,'' @
          [dquote] @ ''He said '' @ [dquote, dquote] @ ''hi'' @ [dquote, dquote, dquote],
        ''2024-03-10 14:00:00,Tarde,30.5,false,40,true,'' @ [dquote, dquote]]"
    unfolding l export_sorted_example by (simp only: list.map export_rows_example)
  from t m d have p: "csv_lines number_text_example tz_brt [csv_r2, csv_r1]
       = csv_lines number_text_example tz_brt [csv_r1, csv_r2]"
    by blast
  from m d l' p o show ?thesis by (intro conjI)
qed


end
